theory Spec2Isabelle
  imports Main "HOL-Library.Sublist"
begin

section \<open>CalDAV calendar sync: the service of caldav-calendar.service.ts\<close>

subsection \<open>Text helpers of the JavaScript string API\<close>

text \<open>
  \<^verbatim>\<open>text.replace(/c/g, s)\<close> for a one-character pattern: every occurrence of the
  character is replaced by the string, left to right, and the replacement is not rescanned.
\<close>

definition replaceAll :: "char \<Rightarrow> string \<Rightarrow> string \<Rightarrow> string" where
  "replaceAll c s text = concat (map (\<lambda>x. if x = c then s else [x]) text)"

abbreviation backslash :: char where "backslash \<equiv> CHR 0x5C"
abbreviation newline :: char where "newline \<equiv> CHR 0x0A"
abbreviation dquote :: char where "dquote \<equiv> CHR 0x22"

text \<open>
  \<^verbatim>\<open>
  private _escapeIcalText(text: string): string {
    return text
      .replace(/\\/g, '\\\\')
      .replace(/;/g, '\\;')
      .replace(/,/g, '\\,')
      .replace(/\n/g, '\\n');
  }
  \<close>
\<close>

definition escapeIcalText :: "string \<Rightarrow> string" where
  "escapeIcalText text =
     replaceAll newline [backslash, CHR ''n'']
       (replaceAll CHR '','' [backslash, CHR '','']
         (replaceAll CHR '';'' [backslash, CHR '';'']
           (replaceAll backslash [backslash, backslash] text)))"

subsection \<open>Data model (caldav-calendar.model.ts)\<close>

text \<open>
  A field of type \<^verbatim>\<open>string | null\<close> is a \<open>string option\<close>; an optional field
  (\<^verbatim>\<open>description?: string\<close>) is an option as well. Timestamps and the other numbers
  are integers (epoch milliseconds).
\<close>

record CaldavCalendarCfg =
  isEnabled :: bool
  caldavUrl :: "string option"
  calendarName :: "string option"
  username :: "string option"
  password :: "string option"
  syncTodos :: bool

record CalendarEventData =
  e_uid :: string
  e_summary :: string
  e_start :: int
  e_end :: int
  e_description :: "string option"

datatype todo_status = NEEDS_ACTION | IN_PROCESS | COMPLETED | CANCELLED

fun status_text :: "todo_status \<Rightarrow> string" where
  "status_text NEEDS_ACTION = ''NEEDS-ACTION''"
| "status_text IN_PROCESS = ''IN-PROCESS''"
| "status_text COMPLETED = ''COMPLETED''"
| "status_text CANCELLED = ''CANCELLED''"

record CalendarTodoData =
  t_uid :: string
  t_summary :: string
  t_description :: "string option"
  t_priority :: "int option"
  t_dueDate :: "int option"
  t_percentComplete :: "int option"
  t_status :: "todo_status option"

text \<open>\<^verbatim>\<open>Partial<CalendarEventData>\<close> and \<^verbatim>\<open>Partial<CalendarTodoData>\<close>: every field may be
  undefined.\<close>

record PartialEventData =
  pe_uid :: "string option"
  pe_summary :: "string option"
  pe_start :: "int option"
  pe_end :: "int option"
  pe_description :: "string option"

record PartialTodoData =
  pt_uid :: "string option"
  pt_summary :: "string option"
  pt_description :: "string option"
  pt_priority :: "int option"
  pt_dueDate :: "int option"
  pt_percentComplete :: "int option"
  pt_status :: "todo_status option"

subsection \<open>The libraries the service calls\<close>

text \<open>
  The service is written against ical.js (\<open>ICAL\<close>) and cdav-library (\<open>DavClient\<close>,
  \<open>Calendar\<close>). Their objects are modelled by the part of their interface the service
  uses. What a call into the network or the platform answers is a parameter: a promise
  either resolves with a value or rejects with an error, of which the model keeps the
  message.
\<close>

datatype 'a promise = Rejected string | Resolved 'a

text \<open>A JavaScript number that holds an integer, or NaN.\<close>

datatype js_number = Num int | NaN

fun js_plus_1 :: "js_number \<Rightarrow> js_number" where
  "js_plus_1 (Num n) = Num (n + 1)"
| "js_plus_1 NaN = NaN"

text \<open>
  A property value of a parsed component, as \<open>getFirstPropertyValue\<close> returns it: a
  number (value type integer), a string (value type text) or an \<open>ICAL.Time\<close>, which
  is represented by the JavaScript timestamp it stands for.
\<close>

datatype ical_value = Number js_number | Text string | DateTime int

text \<open>
  A component of the parsed tree (\<open>ICAL.Component\<close> over jCal): its name, its
  properties in order and its subcomponents. Each property is kept with its first value.
\<close>

datatype component =
  Component (comp_name: string) (comp_props: "(string \<times> ical_value) list")
    (comp_subs: "component list")

text \<open>\<open>getFirstPropertyValue(name)\<close>: the value of the first property of that name, or
  null.\<close>

definition getFirstPropertyValue :: "component \<Rightarrow> string \<Rightarrow> ical_value option" where
  "getFirstPropertyValue c name = map_of (comp_props c) name"

fun setFirst :: "string \<Rightarrow> ical_value \<Rightarrow> (string \<times> ical_value) list \<Rightarrow> (string \<times> ical_value) list" where
  "setFirst name v [] = [(name, v)]"
| "setFirst name v ((k, w) # ps) =
     (if k = name then (k, v) # ps else (k, w) # setFirst name v ps)"

text \<open>\<open>updatePropertyWithValue(name, value)\<close>: sets the value of the first property of
  that name, or appends a new property when there is none.\<close>

definition updatePropertyWithValue :: "component \<Rightarrow> string \<Rightarrow> ical_value \<Rightarrow> component" where
  "updatePropertyWithValue c name v =
     Component (comp_name c) (setFirst name v (comp_props c)) (comp_subs c)"

text \<open>\<open>getFirstSubcomponent(name)\<close>: the first subcomponent of that name, or null.\<close>

definition getFirstSubcomponent :: "component \<Rightarrow> string \<Rightarrow> component option" where
  "getFirstSubcomponent c name = find (\<lambda>s. comp_name s = name) (comp_subs c)"

text \<open>
  The component that \<open>getFirstSubcomponent\<close> returns shares its jCal array with the
  tree it was taken from, so a property update on it is an update of the tree. In the
  model the updated subcomponent is put back in the place of the first one of its name.
\<close>

fun replaceFirst :: "string \<Rightarrow> component \<Rightarrow> component list \<Rightarrow> component list" where
  "replaceFirst name v [] = []"
| "replaceFirst name v (s # ss) =
     (if comp_name s = name then v # ss else s # replaceFirst name v ss)"

definition putFirstSubcomponent :: "component \<Rightarrow> string \<Rightarrow> component \<Rightarrow> component" where
  "putFirstSubcomponent c name v =
     Component (comp_name c) (comp_props c) (replaceFirst name v (comp_subs c))"

text \<open>
  An object returned by \<open>calendarQuery\<close>
  (\<^verbatim>\<open>{ data; url; etag; update?: () => Promise<void>; delete?: () => Promise<void> }\<close>).
  A capability is \<open>None\<close> when the object does not carry it, and otherwise holds what
  the request answers.
\<close>

record VObject =
  vo_data :: string
  vo_url :: string
  vo_etag :: string
  vo_update :: "unit promise option"
  vo_delete :: "unit promise option"

text \<open>The filter tree handed to \<open>calendarQuery\<close>: an element with its name, attributes
  and children, or a leaf element with a text value.\<close>

datatype xml_filter =
  Elem string "(string \<times> string) list" "xml_filter list"
| Leaf string string

record Calendar =
  displayname :: "string option"
  cal_url :: string
  readOnly :: bool
  createVObject :: "string \<Rightarrow> unit promise"
  calendarQuery :: "xml_filter list \<Rightarrow> VObject list promise"

record CalendarHome =
  findAllCalendars :: "Calendar list promise"

record DavClient =
  rootUrl :: "string option"
  calendarHomes :: "CalendarHome list"

text \<open>
  The platform and the server, as one call of the service meets them: the clock, the
  random UUID, the built-ins whose results are not computed here, the two functions of
  the ICS codec, and what \<open>client.connect\<close> answers for a root URL and the credentials
  the XHR provider sends.
\<close>

record env =
  Date_now :: int
  randomUUID :: string
  toISOString :: "int \<Rightarrow> string promise"
  parseInt_string :: "string \<Rightarrow> js_number"
  Time_toString :: "int \<Rightarrow> string"
  ICAL_parse :: "string \<Rightarrow> component promise"
  ICAL_stringify :: "component \<Rightarrow> string"
  connect :: "string option \<Rightarrow> string option \<Rightarrow> string option \<Rightarrow> CalendarHome list promise"

subsection \<open>Errors, effects and the state of the service\<close>

datatype error =
  NotConfigured string
| CalendarNotFound "string option"
| CalendarReadOnly "string option"
| NetworkError string
| LibraryError string

text \<open>The error object of the public methods:
  \<^verbatim>\<open>{ [HANDLED_ERROR_PROP_STR]: prefix + err }\<close>.\<close>

datatype handled_error = HandledError string error

datatype snack =
  ERR_NOT_CONFIGURED
| CALENDAR_NOT_FOUND "string option"
| CALENDAR_READ_ONLY "string option"
| ERR_NETWORK

text \<open>What a call does besides returning: notifications, log lines and requests to the
  server, in the order they happen.\<close>

datatype effect =
  SnackOpen snack
| ConsoleLog string
| LogLog string string
| LogWarn string string
| LogErr string
| NetConnect "string option"
| NetFindAllCalendars
| NetCalendarQuery string "xml_filter list"
| NetCreateVObject string string
| NetUpdate VObject
| NetDelete VObject

record ClientCache =
  client :: DavClient
  calendars :: "string option \<rightharpoonup> Calendar"

record state =
  clientCache :: "string \<rightharpoonup> ClientCache"
  trace :: "effect list"

definition emit :: "effect \<Rightarrow> state \<Rightarrow> state" where
  "emit e st = st\<lparr>trace := trace st @ [e]\<rparr>"

fun is_write :: "effect \<Rightarrow> bool" where
  "is_write (NetCreateVObject _ _) = True"
| "is_write (NetUpdate _) = True"
| "is_write (NetDelete _) = True"
| "is_write _ = False"

fun is_network :: "effect \<Rightarrow> bool" where
  "is_network (NetConnect _) = True"
| "is_network NetFindAllCalendars = True"
| "is_network (NetCalendarQuery _ _) = True"
| "is_network e = is_write e"

subsection \<open>Static helpers of the service\<close>

text \<open>JavaScript truthiness of a \<^verbatim>\<open>string | null | undefined\<close>: null, undefined and the
  empty string are falsy.\<close>

fun truthy :: "string option \<Rightarrow> bool" where
  "truthy None = False"
| "truthy (Some s) = (s \<noteq> [])"

text \<open>A \<^verbatim>\<open>string | null\<close> inside a template literal or a string concatenation.\<close>

fun str :: "string option \<Rightarrow> string" where
  "str None = ''null''"
| "str (Some s) = s"

text \<open>
  \<^verbatim>\<open>
  private static _isValidSettings(cfg: CaldavCalendarCfg): boolean {
    return (
      !!cfg && cfg.isEnabled &&
      !!cfg.caldavUrl && cfg.caldavUrl.length > 0 &&
      !!cfg.calendarName && cfg.calendarName.length > 0 &&
      !!cfg.username && cfg.username.length > 0 &&
      !!cfg.password && cfg.password.length > 0
    );
  }
  \<close>
  The configuration is a record here, so \<^verbatim>\<open>!!cfg\<close> holds.
\<close>

definition isValidSettings :: "CaldavCalendarCfg \<Rightarrow> bool" where
  "isValidSettings cfg \<longleftrightarrow>
     isEnabled cfg \<and>
     truthy (caldavUrl cfg) \<and> length (str (caldavUrl cfg)) > 0 \<and>
     truthy (calendarName cfg) \<and> length (str (calendarName cfg)) > 0 \<and>
     truthy (username cfg) \<and> length (str (username cfg)) > 0 \<and>
     truthy (password cfg) \<and> length (str (password cfg)) > 0"

text \<open>
  \<^verbatim>\<open>
  private static _getCalendarUriFromUrl(url: string): string {
    if (url.endsWith('/')) { url = url.substring(0, url.length - 1); }
    return url.substring(url.lastIndexOf('/') + 1);
  }
  \<close>
\<close>

definition getCalendarUriFromUrl :: "string \<Rightarrow> string" where
  "getCalendarUriFromUrl url0 =
     (let url = (if url0 \<noteq> [] \<and> last url0 = CHR ''/'' then butlast url0 else url0)
      in rev (takeWhile (\<lambda>c. c \<noteq> CHR ''/'') (rev url)))"

definition generateUid :: "env \<Rightarrow> string" where
  "generateUid e = ''sp-'' @ randomUUID e"

definition isDigit :: "char \<Rightarrow> bool" where
  "isDigit c \<longleftrightarrow> c \<in> set ''0123456789''"

text \<open>\<^verbatim>\<open>.replace(/\.\d{3}/, '')\<close>: the first dot followed by three digits is removed.\<close>

fun dropMillis :: "string \<Rightarrow> string" where
  "dropMillis (a # b # c # d # rest) =
     (if a = CHR ''.'' \<and> isDigit b \<and> isDigit c \<and> isDigit d then rest
      else a # dropMillis (b # c # d # rest))"
| "dropMillis s = s"

text \<open>
  \<^verbatim>\<open>
  private static _formatIcalDateTime(timestamp: number): string {
    const date = new Date(timestamp);
    return date.toISOString().replace(/[-:]/g, '').replace(/\.\d{3}/, '');
  }
  \<close>
  \<open>toISOString\<close> throws a RangeError on a timestamp that is no valid date.
\<close>

definition formatIcalDateTime :: "env \<Rightarrow> int \<Rightarrow> string promise" where
  "formatIcalDateTime e timestamp =
     (case toISOString e timestamp of
        Rejected err \<Rightarrow> Rejected err
      | Resolved isoText \<Rightarrow>
          Resolved (dropMillis (filter (\<lambda>c. c \<noteq> CHR ''-'' \<and> c \<noteq> CHR '':'') isoText)))"

text \<open>A number inside a template literal: its decimal numeral.\<close>

fun nat_string :: "nat \<Rightarrow> string" where
  "nat_string n =
     (if n < 10 then [char_of (48 + n)]
      else nat_string (n div 10) @ [char_of (48 + n mod 10)])"

definition int_string :: "int \<Rightarrow> string" where
  "int_string i = (if i < 0 then CHR ''-'' # nat_string (nat (- i)) else nat_string (nat i))"

fun join :: "string \<Rightarrow> string list \<Rightarrow> string" where
  "join sep [] = []"
| "join sep [x] = x"
| "join sep (x # y # ys) = x @ sep @ join sep (y # ys)"

text \<open>The name a calendar is listed and matched under:
  \<^verbatim>\<open>cal.displayname || CaldavCalendarService._getCalendarUriFromUrl(cal.url)\<close>.\<close>

definition calendarNameOf :: "Calendar \<Rightarrow> string" where
  "calendarNameOf cal =
     (if truthy (displayname cal) then str (displayname cal)
      else getCalendarUriFromUrl (cal_url cal))"

subsection \<open>Connection tester\<close>

record test_result =
  success :: bool
  calendars_listed :: "string list option"
  error_text :: "string option"

text \<open>
  \<^verbatim>\<open>
  async testConnection(cfg) {
    try {
      this._clientCache.clear();
      const client = new DavClient({ rootUrl: cfg.caldavUrl }, this._getXhrProvider(cfg));
      await client.connect({ enableCalDAV: true });
      if (!client.calendarHomes || client.calendarHomes.length === 0) {
        return { success: false, error: 'No calendar home found' };
      }
      const calendars = await client.calendarHomes[0].findAllCalendars();
      const calendarNames = calendars.map((cal) => cal.displayname || ..._getCalendarUriFromUrl(cal.url));
      const targetCalendar = cfg.calendarName;
      const calendarFound = targetCalendar ? calendarNames.includes(targetCalendar) : true;
      return { success: true, calendars: calendarNames,
        error: calendarFound ? undefined
          : `Calendar "${targetCalendar}" not found. Available: ${calendarNames.join(', ')}` };
    } catch (err: unknown) {
      const errorMsg = err instanceof Error ? err.message : String(err);
      return { success: false, error: errorMsg };
    }
  }
  \<close>
\<close>

definition testConnection :: "env \<Rightarrow> state \<Rightarrow> CaldavCalendarCfg \<Rightarrow> test_result \<times> state" where
  "testConnection e st cfg =
     (let st1 = st\<lparr>clientCache := Map.empty\<rparr>;
          st2 = emit (NetConnect (caldavUrl cfg)) st1
      in case connect e (caldavUrl cfg) (username cfg) (password cfg) of
           Rejected err \<Rightarrow>
             (\<lparr>success = False, calendars_listed = None, error_text = Some err\<rparr>, st2)
         | Resolved homes \<Rightarrow>
             (case homes of
                [] \<Rightarrow>
                  (\<lparr>success = False, calendars_listed = None,
                    error_text = Some ''No calendar home found''\<rparr>, st2)
              | home # _ \<Rightarrow>
                  (let st3 = emit NetFindAllCalendars st2
                   in case findAllCalendars home of
                        Rejected err \<Rightarrow>
                          (\<lparr>success = False, calendars_listed = None, error_text = Some err\<rparr>, st3)
                      | Resolved cals \<Rightarrow>
                          (let calendarNames = map calendarNameOf cals;
                               targetCalendar = calendarName cfg;
                               calendarFound =
                                 (if truthy targetCalendar
                                  then str targetCalendar \<in> set calendarNames else True)
                           in (\<lparr>success = True, calendars_listed = Some calendarNames,
                                error_text =
                                  (if calendarFound then None
                                   else Some (''Calendar '' @ [dquote] @ str targetCalendar @ [dquote]
                                          @ '' not found. Available: ''
                                          @ join '', '' calendarNames))\<rparr>, st3)))))"

subsection \<open>Connection cache\<close>

text \<open>
  \<^verbatim>\<open>
  private _handleNetErr(err: unknown): never {
    this._snackService.open({ type: 'ERROR', msg: T.F.ISSUE.S.ERR_NETWORK, ... });
    throw new Error('CALDAV CALENDAR NETWORK ERROR: ' + err);
  }
  \<close>
\<close>

definition handleNetErr :: "string \<Rightarrow> state \<Rightarrow> (error + 'a) \<times> state" where
  "handleNetErr err st = (Inl (NetworkError err), emit (SnackOpen ERR_NETWORK) st)"

text \<open>
  Modelled from the spec: \<open>throwHandledError\<close> (src/app/util/throw-handled-error.ts) is
  not among the sources. The spec has the connection cache "fail fast with
  \<open>NotConfigured\<close> if invalid": the helper throws, and the error carries its message.
\<close>

definition throwHandledError :: "string \<Rightarrow> state \<Rightarrow> (error + 'a) \<times> state" where
  "throwHandledError msg st = (Inl (NotConfigured msg), st)"

text \<open>
  \<^verbatim>\<open>
  private _checkSettings(cfg: CaldavCalendarCfg): void {
    if (!CaldavCalendarService._isValidSettings(cfg)) {
      this._snackService.open({ type: 'ERROR', msg: T.F.ISSUE.S.ERR_NOT_CONFIGURED, ... });
      throwHandledError('CalDAV Calendar: Not enough settings');
    }
  }
  \<close>
\<close>

definition checkSettings :: "CaldavCalendarCfg \<Rightarrow> state \<Rightarrow> (error + unit) \<times> state" where
  "checkSettings cfg st =
     (if \<not> isValidSettings cfg
      then throwHandledError ''CalDAV Calendar: Not enough settings''
             (emit (SnackOpen ERR_NOT_CONFIGURED) st)
      else (Inr (), st))"

text \<open>
  \<^verbatim>\<open>
  private async _getClient(cfg): Promise<ClientCache> {
    this._checkSettings(cfg);
    const clientKey = `${cfg.caldavUrl}|${cfg.username}|${cfg.password}`;
    if (this._clientCache.has(clientKey)) { return this._clientCache.get(clientKey); }
    const client = new DavClient({ rootUrl: cfg.caldavUrl }, this._getXhrProvider(cfg));
    await client.connect({ enableCalDAV: true }).catch((err) => this._handleNetErr(err));
    const cache = { client, calendars: new Map() };
    this._clientCache.set(clientKey, cache);
    return cache;
  }
  \<close>
  The cache entry is an object shared with the map, so the model returns its key with
  it: a later write to the entry is a write to the map at that key.
\<close>

definition getClient ::
  "env \<Rightarrow> CaldavCalendarCfg \<Rightarrow> state \<Rightarrow> (error + string \<times> ClientCache) \<times> state" where
  "getClient e cfg st =
     (case checkSettings cfg st of
        (Inl err, st1) \<Rightarrow> (Inl err, st1)
      | (Inr _, st1) \<Rightarrow>
          (let clientKey = str (caldavUrl cfg) @ ''|'' @ str (username cfg) @ ''|''
                             @ str (password cfg)
           in case clientCache st1 clientKey of
                Some cached \<Rightarrow> (Inr (clientKey, cached), st1)
              | None \<Rightarrow>
                  (let st2 = emit (NetConnect (caldavUrl cfg)) st1
                   in case connect e (caldavUrl cfg) (username cfg) (password cfg) of
                        Rejected err \<Rightarrow> handleNetErr err st2
                      | Resolved homes \<Rightarrow>
                          (let cache = \<lparr>client = \<lparr>rootUrl = caldavUrl cfg, calendarHomes = homes\<rparr>,
                                        calendars = Map.empty\<rparr>
                           in (Inr (clientKey, cache),
                               st2\<lparr>clientCache := (clientCache st2)(clientKey \<mapsto> cache)\<rparr>)))))"

text \<open>
  \<^verbatim>\<open>
  private async _getCalendar(cfg): Promise<Calendar> {
    const clientCache = await this._getClient(cfg);
    const resource = cfg.calendarName as string;
    if (clientCache.calendars.has(resource)) { return clientCache.calendars.get(resource); }
    const calendars = await clientCache.client.calendarHomes[0]
      .findAllCalendars().catch((err) => this._handleNetErr(err));
    const calendar = calendars.find((item) =>
      (item.displayname || CaldavCalendarService._getCalendarUriFromUrl(item.url)) === resource);
    if (calendar !== undefined) { clientCache.calendars.set(resource, calendar); return calendar; }
    this._snackService.open({ type: 'ERROR', ..., msg: T.F.CALDAV.S.CALENDAR_NOT_FOUND });
    throw new Error('CALENDAR NOT FOUND: ' + cfg.calendarName);
  }
  \<close>
  With no calendar home, \<^verbatim>\<open>calendarHomes[0].findAllCalendars\<close> is a TypeError.
\<close>

definition getCalendar ::
  "env \<Rightarrow> CaldavCalendarCfg \<Rightarrow> state \<Rightarrow> (error + Calendar) \<times> state" where
  "getCalendar e cfg st =
     (case getClient e cfg st of
        (Inl err, st1) \<Rightarrow> (Inl err, st1)
      | (Inr (clientKey, cc), st1) \<Rightarrow>
          (let resource = calendarName cfg
           in case calendars cc resource of
                Some calendar \<Rightarrow> (Inr calendar, st1)
              | None \<Rightarrow>
                  (case calendarHomes (client cc) of
                     [] \<Rightarrow> (Inl (LibraryError ''TypeError''), st1)
                   | home # _ \<Rightarrow>
                       (let st2 = emit NetFindAllCalendars st1
                        in case findAllCalendars home of
                             Rejected err \<Rightarrow> handleNetErr err st2
                           | Resolved cals \<Rightarrow>
                               (case find (\<lambda>item. Some (calendarNameOf item) = resource) cals of
                                  Some calendar \<Rightarrow>
                                    (Inr calendar,
                                     st2\<lparr>clientCache := (clientCache st2)
                                       (clientKey \<mapsto> cc\<lparr>calendars := (calendars cc)(resource \<mapsto> calendar)\<rparr>)\<rparr>)
                                | None \<Rightarrow>
                                    (Inl (CalendarNotFound (calendarName cfg)),
                                     emit (SnackOpen (CALENDAR_NOT_FOUND (calendarName cfg))) st2))))))"

subsection \<open>Remote object locator\<close>

text \<open>
  \<open>_findEventByUid\<close> and \<open>_findTodoByUid\<close> hand \<open>calendarQuery\<close> the filter
  comp-filter(VCALENDAR) / comp-filter(VEVENT or VTODO) / prop-filter(uid) /
  text-match(uid), each element in the CalDAV namespace, and return what it answers.
  The promise is awaited with no catch, so a rejection is passed on as it is.
\<close>

definition uidQuery :: "string \<Rightarrow> string \<Rightarrow> xml_filter" where
  "uidQuery compType theUid =
     Elem ''comp-filter'' [(''name'', ''VCALENDAR'')]
       [Elem ''comp-filter'' [(''name'', compType)]
          [Elem ''prop-filter'' [(''name'', ''uid'')] [Leaf ''text-match'' theUid]]]"

definition findByUid ::
  "string \<Rightarrow> Calendar \<Rightarrow> string \<Rightarrow> state \<Rightarrow> (error + VObject list) \<times> state" where
  "findByUid compType calendar theUid st =
     (let query = uidQuery compType theUid;
          st1 = emit (NetCalendarQuery (cal_url calendar) [query]) st
      in case calendarQuery calendar [query] of
           Rejected err \<Rightarrow> (Inl (LibraryError err), st1)
         | Resolved objs \<Rightarrow> (Inr objs, st1))"

definition findEventByUid ::
  "Calendar \<Rightarrow> string \<Rightarrow> state \<Rightarrow> (error + VObject list) \<times> state" where
  "findEventByUid = findByUid ''VEVENT''"

definition findTodoByUid ::
  "Calendar \<Rightarrow> string \<Rightarrow> state \<Rightarrow> (error + VObject list) \<times> state" where
  "findTodoByUid = findByUid ''VTODO''"

subsection \<open>Sync operations: events\<close>

text \<open>The read-only rejection that the create and update methods share:
  \<^verbatim>\<open>
    if (calendar.readOnly) {
      this._snackService.open({ type: 'ERROR', ..., msg: T.F.CALDAV.S.CALENDAR_READ_ONLY });
      throw new Error('CALENDAR READ ONLY: ' + cfg.calendarName);
    }
  \<close>
\<close>

definition rejectReadOnly :: "CaldavCalendarCfg \<Rightarrow> state \<Rightarrow> (error + 'a) \<times> state" where
  "rejectReadOnly cfg st =
     (Inl (CalendarReadOnly (calendarName cfg)),
      emit (SnackOpen (CALENDAR_READ_ONLY (calendarName cfg))) st)"

text \<open>
  The template literal of \<open>_createEvent\<close>, one line of the source per line:
  \<^verbatim>\<open>
    const icalData = `BEGIN:VCALENDAR
VERSION:2.0
PRODID:-//Super Productivity//CalDAV Calendar Sync//EN
BEGIN:VEVENT
UID:${uid}
DTSTAMP:${now}
DTSTART:${dtstart}
DTEND:${dtend}
SUMMARY:${this._escapeIcalText(eventData.summary)}
${eventData.description ? `DESCRIPTION:${this._escapeIcalText(eventData.description)}` : ''}
SEQUENCE:0
END:VEVENT
END:VCALENDAR`;
  \<close>
\<close>

definition eventIcalData ::
  "string \<Rightarrow> string \<Rightarrow> string \<Rightarrow> string \<Rightarrow> CalendarEventData \<Rightarrow> string" where
  "eventIcalData theUid now dtstart dtend eventData =
     ''BEGIN:VCALENDAR'' @ [newline] @
     ''VERSION:2.0'' @ [newline] @
     ''PRODID:-//Super Productivity//CalDAV Calendar Sync//EN'' @ [newline] @
     ''BEGIN:VEVENT'' @ [newline] @
     ''UID:'' @ theUid @ [newline] @
     ''DTSTAMP:'' @ now @ [newline] @
     ''DTSTART:'' @ dtstart @ [newline] @
     ''DTEND:'' @ dtend @ [newline] @
     ''SUMMARY:'' @ escapeIcalText (e_summary eventData) @ [newline] @
     (if truthy (e_description eventData)
      then ''DESCRIPTION:'' @ escapeIcalText (str (e_description eventData)) else []) @ [newline] @
     ''SEQUENCE:0'' @ [newline] @
     ''END:VEVENT'' @ [newline] @
     ''END:VCALENDAR''"

text \<open>
  \<^verbatim>\<open>
  private async _createEvent(cfg, eventData): Promise<string> {
    console.log('CalDAV: Creating event', ...);
    const calendar = await this._getCalendar(cfg);
    console.log('CalDAV: Got calendar', ...);
    if (calendar.readOnly) { ... }
    const uid = eventData.uid || CaldavCalendarService._generateUid();
    const now = CaldavCalendarService._formatIcalDateTime(Date.now());
    const dtstart = CaldavCalendarService._formatIcalDateTime(eventData.start);
    const dtend = CaldavCalendarService._formatIcalDateTime(eventData.end);
    const icalData = ...;
    try {
      await calendar.createVObject(icalData);
      Log.log('CalDAV Calendar: Created event', uid);
      return uid;
    } catch (err) { this._handleNetErr(err); throw err; }
  }
  \<close>
\<close>

definition createEvent_impl ::
  "env \<Rightarrow> CaldavCalendarCfg \<Rightarrow> CalendarEventData \<Rightarrow> state \<Rightarrow> (error + string) \<times> state" where
  "createEvent_impl e cfg eventData st =
     (case getCalendar e cfg (emit (ConsoleLog ''CalDAV: Creating event'') st) of
        (Inl err, st1) \<Rightarrow> (Inl err, st1)
      | (Inr calendar, st1) \<Rightarrow>
          (let st2 = emit (ConsoleLog ''CalDAV: Got calendar'') st1
           in if readOnly calendar then rejectReadOnly cfg st2
              else
                (let theUid = (if e_uid eventData \<noteq> [] then e_uid eventData else generateUid e)
                 in case formatIcalDateTime e (Date_now e) of
                      Rejected err \<Rightarrow> (Inl (LibraryError err), st2)
                    | Resolved now \<Rightarrow>
                  (case formatIcalDateTime e (e_start eventData) of
                      Rejected err \<Rightarrow> (Inl (LibraryError err), st2)
                    | Resolved dtstart \<Rightarrow>
                  (case formatIcalDateTime e (e_end eventData) of
                      Rejected err \<Rightarrow> (Inl (LibraryError err), st2)
                    | Resolved dtend \<Rightarrow>
                        (let icalData = eventIcalData theUid now dtstart dtend eventData;
                             st3 = emit (NetCreateVObject (cal_url calendar) icalData) st2
                         in case createVObject calendar icalData of
                              Rejected err \<Rightarrow> handleNetErr err st3
                            | Resolved _ \<Rightarrow>
                                (Inr theUid,
                                 emit (LogLog ''CalDAV Calendar: Created event'' theUid) st3)))))))"

text \<open>JavaScript truthiness of a property value, and \<open>parseInt\<close> of one. On a string
  (and on the string an \<open>ICAL.Time\<close> converts to) \<open>parseInt\<close> is the platform's.\<close>

fun truthy_value :: "ical_value \<Rightarrow> bool" where
  "truthy_value (Number (Num n)) = (n \<noteq> 0)"
| "truthy_value (Number NaN) = False"
| "truthy_value (Text s) = (s \<noteq> [])"
| "truthy_value (DateTime _) = True"

fun parseInt :: "env \<Rightarrow> ical_value \<Rightarrow> js_number" where
  "parseInt e (Number n) = n"
| "parseInt e (Text s) = parseInt_string e s"
| "parseInt e (DateTime t) = parseInt_string e (Time_toString e t)"

text \<open>
  The field updates of \<open>_updateEvent\<close>, with the flag \<open>changeObserved\<close>:
  \<^verbatim>\<open>
    let changeObserved = false;
    if (eventData.summary !== undefined) {
      const oldSummary = vevent.getFirstPropertyValue('summary');
      if (eventData.summary !== oldSummary) {
        vevent.updatePropertyWithValue('summary', eventData.summary);
        changeObserved = true;
      }
    }
    if (eventData.start !== undefined) {
      const newStart = ICAL.Time.fromJSDate(new Date(eventData.start), false);
      vevent.updatePropertyWithValue('dtstart', newStart);
      changeObserved = true;
    }
    if (eventData.end !== undefined) { ... 'dtend' ... }
    if (eventData.description !== undefined) {
      vevent.updatePropertyWithValue('description', eventData.description);
      changeObserved = true;
    }
  \<close>
\<close>

definition applySummary :: "string option \<Rightarrow> component \<times> bool \<Rightarrow> component \<times> bool" where
  "applySummary newSummary vc =
     (case newSummary of
        None \<Rightarrow> vc
      | Some s \<Rightarrow>
          (let oldSummary = getFirstPropertyValue (fst vc) ''summary''
           in if Some (Text s) \<noteq> oldSummary
              then (updatePropertyWithValue (fst vc) ''summary'' (Text s), True)
              else vc))"

definition applyField ::
  "string \<Rightarrow> ical_value option \<Rightarrow> component \<times> bool \<Rightarrow> component \<times> bool" where
  "applyField name newValue vc =
     (case newValue of
        None \<Rightarrow> vc
      | Some v \<Rightarrow> (updatePropertyWithValue (fst vc) name v, True))"

definition applyEventData :: "PartialEventData \<Rightarrow> component \<Rightarrow> component \<times> bool" where
  "applyEventData eventData vevent =
     applyField ''description'' (map_option Text (pe_description eventData))
       (applyField ''dtend'' (map_option DateTime (pe_end eventData))
         (applyField ''dtstart'' (map_option DateTime (pe_start eventData))
           (applySummary (pe_summary eventData) (vevent, False))))"

text \<open>
  The revision stamp of an update that observed a change:
  \<^verbatim>\<open>
    vevent.updatePropertyWithValue('last-modified', now);
    vevent.updatePropertyWithValue('dtstamp', now);
    const sequence = vevent.getFirstPropertyValue('sequence');
    const sequenceInt = sequence ? parseInt(sequence as string) + 1 : 1;
    vevent.updatePropertyWithValue('sequence', sequenceInt);
  \<close>
  where \<open>now\<close> is \<open>ICAL.Time.now()\<close>.
\<close>

definition sequenceInt :: "env \<Rightarrow> ical_value option \<Rightarrow> js_number" where
  "sequenceInt e sequence =
     (case sequence of
        None \<Rightarrow> Num 1
      | Some v \<Rightarrow> (if truthy_value v then js_plus_1 (parseInt e v) else Num 1))"

definition stampRevision :: "env \<Rightarrow> component \<Rightarrow> component" where
  "stampRevision e v =
     (let v1 = updatePropertyWithValue v ''last-modified'' (DateTime (Date_now e));
          v2 = updatePropertyWithValue v1 ''dtstamp'' (DateTime (Date_now e));
          sequence = getFirstPropertyValue v2 ''sequence''
      in updatePropertyWithValue v2 ''sequence'' (Number (sequenceInt e sequence)))"

text \<open>
  The end of both update methods: the tree is serialised into the object, and the
  object is written through its update capability when it has one.
  \<^verbatim>\<open>
    event.data = ICAL.stringify(jCal);
    if (event.update) {
      await event.update().catch((err: unknown) => this._handleNetErr(err));
    }
    Log.log('CalDAV Calendar: Updated event', uid);
  \<close>
\<close>

definition writeBack ::
  "env \<Rightarrow> string \<Rightarrow> string \<Rightarrow> VObject \<Rightarrow> component \<Rightarrow> state \<Rightarrow> (error + unit) \<times> state" where
  "writeBack e logText theUid obj jCal st =
     (let obj1 = obj\<lparr>vo_data := ICAL_stringify e jCal\<rparr>
      in case vo_update obj1 of
           None \<Rightarrow> (Inr (), emit (LogLog logText theUid) st)
         | Some answer \<Rightarrow>
             (let st1 = emit (NetUpdate obj1) st
              in case answer of
                   Rejected err \<Rightarrow> handleNetErr err st1
                 | Resolved _ \<Rightarrow> (Inr (), emit (LogLog logText theUid) st1)))"

text \<open>
  \<^verbatim>\<open>
  private async _updateEvent(cfg, uid, eventData: Partial<CalendarEventData>): Promise<void> {
    const calendar = await this._getCalendar(cfg);
    if (calendar.readOnly) { ... }
    const events = await this._findEventByUid(calendar, uid);
    if (events.length < 1) {
      Log.warn('CalDAV Calendar: Event not found for update', uid);
      return;
    }
    const event = events[0];
    const jCal = ICAL.parse(event.data);
    const comp = new ICAL.Component(jCal);
    const vevent = comp.getFirstSubcomponent('vevent');
    if (!vevent) { Log.err('No vevent found', event); return; }
    const now = ICAL.Time.now();
    ... (the field updates)
    if (!changeObserved) { return; }
    ... (the revision stamp and the write)
  }
  \<close>
\<close>

definition updateEvent_impl ::
  "env \<Rightarrow> CaldavCalendarCfg \<Rightarrow> string \<Rightarrow> PartialEventData \<Rightarrow> state \<Rightarrow> (error + unit) \<times> state" where
  "updateEvent_impl e cfg theUid eventData st =
     (case getCalendar e cfg st of
        (Inl err, st1) \<Rightarrow> (Inl err, st1)
      | (Inr calendar, st1) \<Rightarrow>
          if readOnly calendar then rejectReadOnly cfg st1
          else
            (case findEventByUid calendar theUid st1 of
               (Inl err, st2) \<Rightarrow> (Inl err, st2)
             | (Inr [], st2) \<Rightarrow>
                 (Inr (), emit (LogWarn ''CalDAV Calendar: Event not found for update'' theUid) st2)
             | (Inr (event # _), st2) \<Rightarrow>
                 (case ICAL_parse e (vo_data event) of
                    Rejected err \<Rightarrow> (Inl (LibraryError err), st2)
                  | Resolved jCal \<Rightarrow>
                      (case getFirstSubcomponent jCal ''vevent'' of
                         None \<Rightarrow> (Inr (), emit (LogErr ''No vevent found'') st2)
                       | Some vevent \<Rightarrow>
                           (case applyEventData eventData vevent of
                              (vevent1, changeObserved) \<Rightarrow>
                                if \<not> changeObserved then (Inr (), st2)
                                else
                                  writeBack e ''CalDAV Calendar: Updated event'' theUid event
                                    (putFirstSubcomponent jCal ''vevent'' (stampRevision e vevent1))
                                    st2)))))"

text \<open>
  The end of both delete methods:
  \<^verbatim>\<open>
    if (event.delete) {
      await event.delete().catch((err: unknown) => this._handleNetErr(err));
    }
    Log.log('CalDAV Calendar: Deleted event', uid);
  \<close>
\<close>

definition deleteObject ::
  "string \<Rightarrow> string \<Rightarrow> VObject \<Rightarrow> state \<Rightarrow> (error + unit) \<times> state" where
  "deleteObject logText theUid obj st =
     (case vo_delete obj of
        None \<Rightarrow> (Inr (), emit (LogLog logText theUid) st)
      | Some answer \<Rightarrow>
          (let st1 = emit (NetDelete obj) st
           in case answer of
                Rejected err \<Rightarrow> handleNetErr err st1
              | Resolved _ \<Rightarrow> (Inr (), emit (LogLog logText theUid) st1)))"

text \<open>
  \<^verbatim>\<open>
  private async _deleteEvent(cfg, uid): Promise<void> {
    const calendar = await this._getCalendar(cfg);
    const events = await this._findEventByUid(calendar, uid);
    if (events.length < 1) {
      Log.warn('CalDAV Calendar: Event not found for deletion', uid);
      return;
    }
    const event = events[0];
    ... (the delete)
  }
  \<close>
\<close>

definition deleteEvent_impl ::
  "env \<Rightarrow> CaldavCalendarCfg \<Rightarrow> string \<Rightarrow> state \<Rightarrow> (error + unit) \<times> state" where
  "deleteEvent_impl e cfg theUid st =
     (case getCalendar e cfg st of
        (Inl err, st1) \<Rightarrow> (Inl err, st1)
      | (Inr calendar, st1) \<Rightarrow>
          (case findEventByUid calendar theUid st1 of
             (Inl err, st2) \<Rightarrow> (Inl err, st2)
           | (Inr [], st2) \<Rightarrow>
               (Inr (), emit (LogWarn ''CalDAV Calendar: Event not found for deletion'' theUid) st2)
           | (Inr (event # _), st2) \<Rightarrow>
               deleteObject ''CalDAV Calendar: Deleted event'' theUid event st2))"

subsection \<open>Sync operations: todos\<close>

text \<open>
  The text that \<open>_createTodo\<close> builds:
  \<^verbatim>\<open>
    let icalData = `BEGIN:VCALENDAR
VERSION:2.0
PRODID:-//Super Productivity//CalDAV Calendar Sync//EN
BEGIN:VTODO
UID:${uid}
DTSTAMP:${now}
CREATED:${now}
SUMMARY:${this._escapeIcalText(todoData.summary)}
STATUS:${todoData.status || 'NEEDS-ACTION'}`;
    if (todoData.description) {
      icalData += `\nDESCRIPTION:${this._escapeIcalText(todoData.description)}`;
    }
    if (todoData.priority !== undefined) { icalData += `\nPRIORITY:${todoData.priority}`; }
    if (todoData.dueDate !== undefined) {
      const dueStr = CaldavCalendarService._formatIcalDateTime(todoData.dueDate);
      icalData += `\nDUE:${dueStr}`;
    }
    if (todoData.percentComplete !== undefined) {
      icalData += `\nPERCENT-COMPLETE:${todoData.percentComplete}`;
    }
    icalData += `
SEQUENCE:0
END:VTODO
END:VCALENDAR`;
  \<close>
  The due date is formatted by the caller, which passes \<open>dueStr\<close> on.
\<close>

definition todoIcalData ::
  "string \<Rightarrow> string \<Rightarrow> string option \<Rightarrow> CalendarTodoData \<Rightarrow> string" where
  "todoIcalData theUid now dueStr todoData =
     ''BEGIN:VCALENDAR'' @ [newline] @
     ''VERSION:2.0'' @ [newline] @
     ''PRODID:-//Super Productivity//CalDAV Calendar Sync//EN'' @ [newline] @
     ''BEGIN:VTODO'' @ [newline] @
     ''UID:'' @ theUid @ [newline] @
     ''DTSTAMP:'' @ now @ [newline] @
     ''CREATED:'' @ now @ [newline] @
     ''SUMMARY:'' @ escapeIcalText (t_summary todoData) @ [newline] @
     ''STATUS:'' @ (case t_status todoData of None \<Rightarrow> ''NEEDS-ACTION'' | Some s \<Rightarrow> status_text s) @
     (if truthy (t_description todoData)
      then [newline] @ ''DESCRIPTION:'' @ escapeIcalText (str (t_description todoData)) else []) @
     (case t_priority todoData of
        None \<Rightarrow> [] | Some p \<Rightarrow> [newline] @ ''PRIORITY:'' @ int_string p) @
     (case dueStr of
        None \<Rightarrow> [] | Some d \<Rightarrow> [newline] @ ''DUE:'' @ d) @
     (case t_percentComplete todoData of
        None \<Rightarrow> [] | Some pc \<Rightarrow> [newline] @ ''PERCENT-COMPLETE:'' @ int_string pc) @
     [newline] @ ''SEQUENCE:0'' @ [newline] @
     ''END:VTODO'' @ [newline] @
     ''END:VCALENDAR''"

text \<open>
  \<^verbatim>\<open>
  private async _createTodo(cfg, todoData): Promise<string> {
    console.log('CalDAV: Creating VTODO', ...);
    const calendar = await this._getCalendar(cfg);
    console.log('CalDAV: Got calendar for VTODO', ...);
    if (calendar.readOnly) { ... }
    const uid = todoData.uid || CaldavCalendarService._generateUid();
    const now = CaldavCalendarService._formatIcalDateTime(Date.now());
    ... (the text)
    try {
      await calendar.createVObject(icalData);
      Log.log('CalDAV Calendar: Created VTODO', uid);
      return uid;
    } catch (err) { this._handleNetErr(err); throw err; }
  }
  \<close>
\<close>

definition createTodo_impl ::
  "env \<Rightarrow> CaldavCalendarCfg \<Rightarrow> CalendarTodoData \<Rightarrow> state \<Rightarrow> (error + string) \<times> state" where
  "createTodo_impl e cfg todoData st =
     (case getCalendar e cfg (emit (ConsoleLog ''CalDAV: Creating VTODO'') st) of
        (Inl err, st1) \<Rightarrow> (Inl err, st1)
      | (Inr calendar, st1) \<Rightarrow>
          (let st2 = emit (ConsoleLog ''CalDAV: Got calendar for VTODO'') st1
           in if readOnly calendar then rejectReadOnly cfg st2
              else
                (let theUid = (if t_uid todoData \<noteq> [] then t_uid todoData else generateUid e)
                 in case formatIcalDateTime e (Date_now e) of
                      Rejected err \<Rightarrow> (Inl (LibraryError err), st2)
                    | Resolved now \<Rightarrow>
                  (case (case t_dueDate todoData of
                           None \<Rightarrow> Resolved None
                         | Some due \<Rightarrow>
                             (case formatIcalDateTime e due of
                                Rejected err \<Rightarrow> Rejected err
                              | Resolved d \<Rightarrow> Resolved (Some d))) of
                      Rejected err \<Rightarrow> (Inl (LibraryError err), st2)
                    | Resolved dueStr \<Rightarrow>
                        (let icalData = todoIcalData theUid now dueStr todoData;
                             st3 = emit (NetCreateVObject (cal_url calendar) icalData) st2
                         in case createVObject calendar icalData of
                              Rejected err \<Rightarrow> handleNetErr err st3
                            | Resolved _ \<Rightarrow>
                                (Inr theUid,
                                 emit (LogLog ''CalDAV Calendar: Created VTODO'' theUid) st3))))))"

text \<open>
  The field updates of \<open>_updateTodo\<close>:
  \<^verbatim>\<open>
    if (todoData.summary !== undefined) { ... as for an event ... }
    if (todoData.description !== undefined) {
      vtodo.updatePropertyWithValue('description', todoData.description);
      changeObserved = true;
    }
    if (todoData.status !== undefined) {
      vtodo.updatePropertyWithValue('status', todoData.status);
      changeObserved = true;
      // Set COMPLETED timestamp when marking as completed
      if (todoData.status === 'COMPLETED') {
        vtodo.updatePropertyWithValue('completed', now);
      }
    }
    if (todoData.percentComplete !== undefined) { ... 'percent-complete' ... }
    if (todoData.priority !== undefined) { ... 'priority' ... }
    if (todoData.dueDate !== undefined) {
      const newDue = ICAL.Time.fromJSDate(new Date(todoData.dueDate), false);
      vtodo.updatePropertyWithValue('due', newDue);
      changeObserved = true;
    }
  \<close>
\<close>

definition applyStatus ::
  "env \<Rightarrow> todo_status option \<Rightarrow> component \<times> bool \<Rightarrow> component \<times> bool" where
  "applyStatus e newStatus vc =
     (case newStatus of
        None \<Rightarrow> vc
      | Some s \<Rightarrow>
          (let v1 = updatePropertyWithValue (fst vc) ''status'' (Text (status_text s))
           in (if s = COMPLETED
               then updatePropertyWithValue v1 ''completed'' (DateTime (Date_now e))
               else v1, True)))"

definition applyTodoData :: "env \<Rightarrow> PartialTodoData \<Rightarrow> component \<Rightarrow> component \<times> bool" where
  "applyTodoData e todoData vtodo =
     applyField ''due'' (map_option DateTime (pt_dueDate todoData))
       (applyField ''priority'' (map_option (\<lambda>n. Number (Num n)) (pt_priority todoData))
         (applyField ''percent-complete''
            (map_option (\<lambda>n. Number (Num n)) (pt_percentComplete todoData))
           (applyStatus e (pt_status todoData)
             (applyField ''description'' (map_option Text (pt_description todoData))
               (applySummary (pt_summary todoData) (vtodo, False))))))"

text \<open>\<open>_updateTodo\<close> has the shape of \<open>_updateEvent\<close>, on the first \<open>vtodo\<close>
  subcomponent of the first object that \<open>_findTodoByUid\<close> returns.\<close>

definition updateTodo_impl ::
  "env \<Rightarrow> CaldavCalendarCfg \<Rightarrow> string \<Rightarrow> PartialTodoData \<Rightarrow> state \<Rightarrow> (error + unit) \<times> state" where
  "updateTodo_impl e cfg theUid todoData st =
     (case getCalendar e cfg st of
        (Inl err, st1) \<Rightarrow> (Inl err, st1)
      | (Inr calendar, st1) \<Rightarrow>
          if readOnly calendar then rejectReadOnly cfg st1
          else
            (case findTodoByUid calendar theUid st1 of
               (Inl err, st2) \<Rightarrow> (Inl err, st2)
             | (Inr [], st2) \<Rightarrow>
                 (Inr (), emit (LogWarn ''CalDAV Calendar: VTODO not found for update'' theUid) st2)
             | (Inr (todo # _), st2) \<Rightarrow>
                 (case ICAL_parse e (vo_data todo) of
                    Rejected err \<Rightarrow> (Inl (LibraryError err), st2)
                  | Resolved jCal \<Rightarrow>
                      (case getFirstSubcomponent jCal ''vtodo'' of
                         None \<Rightarrow> (Inr (), emit (LogErr ''No vtodo found'') st2)
                       | Some vtodo \<Rightarrow>
                           (case applyTodoData e todoData vtodo of
                              (vtodo1, changeObserved) \<Rightarrow>
                                if \<not> changeObserved then (Inr (), st2)
                                else
                                  writeBack e ''CalDAV Calendar: Updated VTODO'' theUid todo
                                    (putFirstSubcomponent jCal ''vtodo'' (stampRevision e vtodo1))
                                    st2)))))"

definition deleteTodo_impl ::
  "env \<Rightarrow> CaldavCalendarCfg \<Rightarrow> string \<Rightarrow> state \<Rightarrow> (error + unit) \<times> state" where
  "deleteTodo_impl e cfg theUid st =
     (case getCalendar e cfg st of
        (Inl err, st1) \<Rightarrow> (Inl err, st1)
      | (Inr calendar, st1) \<Rightarrow>
          (case findTodoByUid calendar theUid st1 of
             (Inl err, st2) \<Rightarrow> (Inl err, st2)
           | (Inr [], st2) \<Rightarrow>
               (Inr (), emit (LogWarn ''CalDAV Calendar: VTODO not found for deletion'' theUid) st2)
           | (Inr (todo # _), st2) \<Rightarrow>
               deleteObject ''CalDAV Calendar: Deleted VTODO'' theUid todo st2))"

subsection \<open>The public methods\<close>

text \<open>
  Each public method runs its private method and wraps a failure:
  \<^verbatim>\<open>
  createEvent$(cfg, eventData): Observable<string> {
    return from(this._createEvent(cfg, eventData)).pipe(
      catchError((err) => throwError({ [HANDLED_ERROR_PROP_STR]: 'CalDAV Calendar: ' + err })));
  }
  \<close>
  The todo methods use the prefix \<open>'CalDAV Calendar (VTODO): '\<close>, and
  \<open>completeTodo$\<close> is \<open>_updateTodo\<close> with
  \<^verbatim>\<open>{ status: 'COMPLETED', percentComplete: 100 }\<close>.
\<close>

definition handled :: "string \<Rightarrow> (error + 'a) \<times> state \<Rightarrow> (handled_error + 'a) \<times> state" where
  "handled pfx r =
     (case r of
        (Inl err, st) \<Rightarrow> (Inl (HandledError pfx err), st)
      | (Inr x, st) \<Rightarrow> (Inr x, st))"

definition createEvent ::
  "env \<Rightarrow> CaldavCalendarCfg \<Rightarrow> CalendarEventData \<Rightarrow> state \<Rightarrow> (handled_error + string) \<times> state" where
  "createEvent e cfg eventData st = handled ''CalDAV Calendar: '' (createEvent_impl e cfg eventData st)"

definition updateEvent ::
  "env \<Rightarrow> CaldavCalendarCfg \<Rightarrow> string \<Rightarrow> PartialEventData \<Rightarrow> state \<Rightarrow> (handled_error + unit) \<times> state" where
  "updateEvent e cfg theUid eventData st =
     handled ''CalDAV Calendar: '' (updateEvent_impl e cfg theUid eventData st)"

definition deleteEvent ::
  "env \<Rightarrow> CaldavCalendarCfg \<Rightarrow> string \<Rightarrow> state \<Rightarrow> (handled_error + unit) \<times> state" where
  "deleteEvent e cfg theUid st = handled ''CalDAV Calendar: '' (deleteEvent_impl e cfg theUid st)"

definition createTodo ::
  "env \<Rightarrow> CaldavCalendarCfg \<Rightarrow> CalendarTodoData \<Rightarrow> state \<Rightarrow> (handled_error + string) \<times> state" where
  "createTodo e cfg todoData st =
     handled ''CalDAV Calendar (VTODO): '' (createTodo_impl e cfg todoData st)"

definition updateTodo ::
  "env \<Rightarrow> CaldavCalendarCfg \<Rightarrow> string \<Rightarrow> PartialTodoData \<Rightarrow> state \<Rightarrow> (handled_error + unit) \<times> state" where
  "updateTodo e cfg theUid todoData st =
     handled ''CalDAV Calendar (VTODO): '' (updateTodo_impl e cfg theUid todoData st)"

definition completeTodo ::
  "env \<Rightarrow> CaldavCalendarCfg \<Rightarrow> string \<Rightarrow> state \<Rightarrow> (handled_error + unit) \<times> state" where
  "completeTodo e cfg theUid st =
     handled ''CalDAV Calendar (VTODO): ''
       (updateTodo_impl e cfg theUid
          \<lparr>pt_uid = None, pt_summary = None, pt_description = None, pt_priority = None,
           pt_dueDate = None, pt_percentComplete = Some 100, pt_status = Some COMPLETED\<rparr> st)"

definition deleteTodo ::
  "env \<Rightarrow> CaldavCalendarCfg \<Rightarrow> string \<Rightarrow> state \<Rightarrow> (handled_error + unit) \<times> state" where
  "deleteTodo e cfg theUid st =
     handled ''CalDAV Calendar (VTODO): '' (deleteTodo_impl e cfg theUid st)"

subsection \<open>The escape, character by character\<close>

text \<open>The escape as one pass: what each character of the input becomes.\<close>

definition escapeChar :: "char \<Rightarrow> string" where
  "escapeChar x =
     (if x = backslash then [backslash, backslash]
      else if x = CHR '';'' then [backslash, CHR '';'']
      else if x = CHR '','' then [backslash, CHR '','']
      else if x = newline then [backslash, CHR ''n'']
      else [x])"

subsection \<open>A concrete server for the worked examples\<close>

text \<open>
  A server with two calendars, a read-only one named Home and a writable one named
  Work, which holds one event and one todo. A second root URL lists the calendars Home and
  Personal only; any other root URL refuses the connection. The codec of the examples
  knows the two stored texts.
\<close>

definition demo_vevent :: component where
  "demo_vevent =
     Component ''vevent''
       [(''uid'', Text ''sp-task-42''), (''summary'', Text ''Write report''),
        (''description'', Text ''notes''), (''sequence'', Number (Num 3))] []"

definition demo_vtodo :: component where
  "demo_vtodo =
     Component ''vtodo''
       [(''uid'', Text ''sp-task-7''), (''summary'', Text ''Buy milk''),
        (''status'', Text ''NEEDS-ACTION'')] []"

definition demo_event_jCal :: component where
  "demo_event_jCal = Component ''vcalendar'' [(''version'', Text ''2.0'')] [demo_vevent]"

definition demo_todo_jCal :: component where
  "demo_todo_jCal = Component ''vcalendar'' [(''version'', Text ''2.0'')] [demo_vtodo]"

definition demo_event :: VObject where
  "demo_event =
     \<lparr>vo_data = ''event-42'', vo_url = ''/cal/work/42.ics'', vo_etag = ''e1'',
      vo_update = Some (Resolved ()), vo_delete = Some (Resolved ())\<rparr>"

definition demo_todo :: VObject where
  "demo_todo =
     \<lparr>vo_data = ''todo-7'', vo_url = ''/cal/work/7.ics'', vo_etag = ''e2'',
      vo_update = Some (Resolved ()), vo_delete = Some (Resolved ())\<rparr>"

text \<open>An event and a todo whose objects carry no capability handle.\<close>

definition demo_bare_event :: VObject where
  "demo_bare_event =
     \<lparr>vo_data = ''event-42'', vo_url = ''/cal/work/9.ics'', vo_etag = ''e3'',
      vo_update = None, vo_delete = None\<rparr>"

definition demo_bare_todo :: VObject where
  "demo_bare_todo =
     \<lparr>vo_data = ''todo-7'', vo_url = ''/cal/work/10.ics'', vo_etag = ''e4'',
      vo_update = None, vo_delete = None\<rparr>"

definition demo_work :: Calendar where
  "demo_work =
     \<lparr>displayname = Some ''Work'', cal_url = ''/cal/work/'', readOnly = False,
      createVObject = (\<lambda>_. Resolved ()),
      calendarQuery = (\<lambda>q.
        if q = [uidQuery ''VEVENT'' ''sp-task-42''] then Resolved [demo_event]
        else if q = [uidQuery ''VEVENT'' ''sp-task-9''] then Resolved [demo_bare_event]
        else if q = [uidQuery ''VTODO'' ''sp-task-7''] then Resolved [demo_todo]
        else if q = [uidQuery ''VTODO'' ''sp-task-9''] then Resolved [demo_bare_todo]
        else Resolved [])\<rparr>"

definition demo_home :: Calendar where
  "demo_home =
     \<lparr>displayname = Some ''Home'', cal_url = ''/cal/home/'', readOnly = True,
      createVObject = (\<lambda>_. Rejected ''403''),
      calendarQuery = (\<lambda>q.
        if q = [uidQuery ''VEVENT'' ''sp-task-42''] then Resolved [demo_event]
        else if q = [uidQuery ''VTODO'' ''sp-task-7''] then Resolved [demo_todo]
        else Resolved [])\<rparr>"

definition demo_personal :: Calendar where
  "demo_personal =
     \<lparr>displayname = None, cal_url = ''/cal/Personal/'', readOnly = False,
      createVObject = (\<lambda>_. Resolved ()), calendarQuery = (\<lambda>q. Resolved [])\<rparr>"

definition demo_env :: env where
  "demo_env =
     \<lparr>Date_now = 1700000000000,
      randomUUID = ''123e4567-e89b-42d3-a456-426614174000'',
      toISOString = (\<lambda>t. Resolved ''2023-11-14T22:13:20.000Z''),
      parseInt_string = (\<lambda>s. NaN),
      Time_toString = (\<lambda>t. ''2023-11-14T22:13:20''),
      ICAL_parse = (\<lambda>s.
        if s = ''event-42'' then Resolved demo_event_jCal
        else if s = ''todo-7'' then Resolved demo_todo_jCal
        else Rejected ''ParserError''),
      ICAL_stringify = (\<lambda>c.
        if c = demo_event_jCal then ''event-42''
        else if c = demo_todo_jCal then ''todo-7'' else ''updated''),
      connect = (\<lambda>root user pass.
        if root = Some ''https://dav.example/''
        then Resolved [\<lparr>findAllCalendars = Resolved [demo_home, demo_work]\<rparr>]
        else if root = Some ''https://other.example/''
        then Resolved [\<lparr>findAllCalendars = Resolved [demo_home, demo_personal]\<rparr>]
        else Rejected ''connection refused'')\<rparr>"

definition demo_cfg :: CaldavCalendarCfg where
  "demo_cfg =
     \<lparr>isEnabled = True, caldavUrl = Some ''https://dav.example/'',
      calendarName = Some ''Work'', username = Some ''alice'', password = Some ''secret'',
      syncTodos = True\<rparr>"

definition demo_state :: state where
  "demo_state = \<lparr>clientCache = Map.empty, trace = []\<rparr>"

definition demo_eventData :: CalendarEventData where
  "demo_eventData =
     \<lparr>e_uid = ''sp-task-42'', e_summary = ''Write report'', e_start = 1700000000000,
      e_end = 1700003600000, e_description = None\<rparr>"

definition demo_todoData :: CalendarTodoData where
  "demo_todoData =
     \<lparr>t_uid = ''sp-task-7'', t_summary = ''Buy milk'', t_description = None,
      t_priority = None, t_dueDate = None, t_percentComplete = None, t_status = None\<rparr>"

definition no_eventData :: PartialEventData where
  "no_eventData =
     \<lparr>pe_uid = None, pe_summary = None, pe_start = None, pe_end = None,
      pe_description = None\<rparr>"

definition no_todoData :: PartialTodoData where
  "no_todoData =
     \<lparr>pt_uid = None, pt_summary = None, pt_description = None, pt_priority = None,
      pt_dueDate = None, pt_percentComplete = None, pt_status = None\<rparr>"

text \<open>Configurations for the read-only calendar, for the second root URL and for a
  server that is down.\<close>

definition demo_home_cfg :: CaldavCalendarCfg where
  "demo_home_cfg = demo_cfg\<lparr>calendarName := Some ''Home''\<rparr>"

definition demo_other_cfg :: CaldavCalendarCfg where
  "demo_other_cfg = demo_cfg\<lparr>caldavUrl := Some ''https://other.example/''\<rparr>"

definition demo_offline_cfg :: CaldavCalendarCfg where
  "demo_offline_cfg = demo_cfg\<lparr>caldavUrl := Some ''https://down.example/''\<rparr>"

text \<open>Two payloads whose only field equals the current value of the stored event.\<close>

definition demo_same_description :: PartialEventData where
  "demo_same_description = no_eventData\<lparr>pe_description := Some ''notes''\<rparr>"

definition demo_same_summary :: PartialEventData where
  "demo_same_summary = no_eventData\<lparr>pe_summary := Some ''Write report''\<rparr>"

text \<open>Two payloads that change the stored event and the stored todo.\<close>

definition demo_new_summary :: PartialEventData where
  "demo_new_summary = no_eventData\<lparr>pe_summary := Some ''Write the report''\<rparr>"

definition demo_new_priority :: PartialTodoData where
  "demo_new_priority = no_todoData\<lparr>pt_priority := Some 1\<rparr>"

subsection \<open>Outcomes that the properties speak of\<close>

text \<open>A call ends as not configured: it fails with the error of \<open>_checkSettings\<close>
  under the prefix of its public method, and its trace holds no request to the server
  beyond those the service had made before.\<close>

definition not_configured :: "string \<Rightarrow> state \<Rightarrow> (handled_error + 'a) \<times> state \<Rightarrow> bool" where
  "not_configured pfx st r \<longleftrightarrow>
     fst r = Inl (HandledError pfx (NotConfigured ''CalDAV Calendar: Not enough settings'')) \<and>
     filter is_network (trace (snd r)) = filter is_network (trace st)"

text \<open>A call ends as rejected by a read-only calendar: it fails with that error, and
  its trace holds no write beyond those the service had made before.\<close>

definition read_only_rejected ::
  "string \<Rightarrow> CaldavCalendarCfg \<Rightarrow> state \<Rightarrow> (handled_error + 'a) \<times> state \<Rightarrow> bool" where
  "read_only_rejected pfx cfg st r \<longleftrightarrow>
     fst r = Inl (HandledError pfx (CalendarReadOnly (calendarName cfg))) \<and>
     filter is_write (trace (snd r)) = filter is_write (trace st)"

text \<open>A call ends as a no-op on a uid without a match: it returns, its trace holds no
  write beyond those the service had made before, and its last effect is the warning.\<close>

definition no_match_noop :: "string \<Rightarrow> string \<Rightarrow> state \<Rightarrow> (handled_error + unit) \<times> state \<Rightarrow> bool" where
  "no_match_noop msg theUid st r \<longleftrightarrow>
     fst r = Inr () \<and>
     filter is_write (trace (snd r)) = filter is_write (trace st) \<and>
     trace (snd r) \<noteq> [] \<and> last (trace (snd r)) = LogWarn msg theUid"


text \<open>A call ends as reported done without a request: it returns, its trace holds no
  write beyond those the service had made before, and its last effect is the log line.\<close>

definition logged_without_request ::
  "string \<Rightarrow> string \<Rightarrow> state \<Rightarrow> (handled_error + unit) \<times> state \<Rightarrow> bool" where
  "logged_without_request msg theUid st r \<longleftrightarrow>
     fst r = Inr () \<and>
     filter is_write (trace (snd r)) = filter is_write (trace st) \<and>
     trace (snd r) \<noteq> [] \<and> last (trace (snd r)) = LogLog msg theUid"

subsection \<open>Properties of the text helpers\<close>

lemma replaceAll_Nil [simp]: "replaceAll c s [] = []"
  by (simp add: replaceAll_def)

lemma replaceAll_Cons [simp]:
  "replaceAll c s (x # xs) = (if x = c then s else [x]) @ replaceAll c s xs"
  by (simp add: replaceAll_def)

lemma replaceAll_append [simp]:
  "replaceAll c s (xs @ ys) = replaceAll c s xs @ replaceAll c s ys"
  by (simp add: replaceAll_def)

lemma escapeIcalText_Cons:
  "escapeIcalText (x # xs) = escapeChar x @ escapeIcalText xs"
  by (simp add: escapeIcalText_def escapeChar_def)

text \<open>
  C8. The escape function is the four substitutions in the order backslash, semicolon,
  comma, newline, and that order makes it a single pass over the input: every input
  character is translated exactly once, so a backslash introduced by a later substitution
  is never escaped again.
\<close>

theorem escapeIcalText_order_single_pass:
  "escapeIcalText text =
     replaceAll newline [backslash, CHR ''n'']
       (replaceAll CHR '','' [backslash, CHR '','']
         (replaceAll CHR '';'' [backslash, CHR '';'']
           (replaceAll backslash [backslash, backslash] text)))
   \<and> escapeIcalText text = concat (map escapeChar text)"
proof
  show "escapeIcalText text =
     replaceAll newline [backslash, CHR ''n'']
       (replaceAll CHR '','' [backslash, CHR '','']
         (replaceAll CHR '';'' [backslash, CHR '';'']
           (replaceAll backslash [backslash, backslash] text)))"
    by (simp add: escapeIcalText_def)
next
  show "escapeIcalText text = concat (map escapeChar text)"
  proof (induction "text")
    case Nil
    show ?case by (simp add: escapeIcalText_def)
  next
    case (Cons x xs)
    then show ?case by (simp add: escapeIcalText_Cons)
  qed
qed

subsection \<open>The connection cache and the trace\<close>

lemma trace_emit [simp]: "trace (emit x st) = trace st @ [x]"
  by (simp add: emit_def)

lemma clientCache_emit [simp]: "clientCache (emit x st) = clientCache st"
  by (simp add: emit_def)

lemma isValidSettings_iff:
  "isValidSettings cfg \<longleftrightarrow>
     isEnabled cfg \<and> truthy (caldavUrl cfg) \<and> truthy (calendarName cfg) \<and>
     truthy (username cfg) \<and> truthy (password cfg)"
  by (cases "caldavUrl cfg"; cases "calendarName cfg"; cases "username cfg"; cases "password cfg")
     (auto simp: isValidSettings_def)

lemma getCalendar_invalid:
  "\<not> isValidSettings cfg \<Longrightarrow>
   getCalendar e cfg st =
     (Inl (NotConfigured ''CalDAV Calendar: Not enough settings''), emit (SnackOpen ERR_NOT_CONFIGURED) st)"
  by (simp add: getCalendar_def getClient_def checkSettings_def throwHandledError_def)

lemma getClient_no_write:
  "filter is_write (trace (snd (getClient e cfg st))) = filter is_write (trace st)"
  by (simp add: getClient_def checkSettings_def throwHandledError_def handleNetErr_def Let_def
      split: option.splits promise.splits)

lemma getCalendar_no_write:
  "filter is_write (trace (snd (getCalendar e cfg st))) = filter is_write (trace st)"
  using getClient_no_write [of e cfg st]
  by (auto simp: getCalendar_def handleNetErr_def Let_def
      split: prod.splits sum.splits option.splits promise.splits list.splits)

lemma getClient_emit:
  "fst (getClient e cfg (emit x st)) = fst (getClient e cfg st)"
  by (simp add: getClient_def checkSettings_def throwHandledError_def handleNetErr_def Let_def
      split: option.splits promise.splits)

lemma getCalendar_emit:
  "fst (getCalendar e cfg (emit x st)) = fst (getCalendar e cfg st)"
  using getClient_emit [of e cfg x st]
  by (auto simp: getCalendar_def handleNetErr_def Let_def
      split: prod.splits sum.splits option.splits promise.splits list.splits)

lemma createEvent_invalid:
  "\<not> isValidSettings cfg \<Longrightarrow> not_configured ''CalDAV Calendar: '' st (createEvent e cfg eventData st)"
  by (simp add: not_configured_def createEvent_def createEvent_impl_def handled_def getCalendar_invalid)

lemma updateEvent_invalid:
  "\<not> isValidSettings cfg \<Longrightarrow> not_configured ''CalDAV Calendar: '' st (updateEvent e cfg u eventData st)"
  by (simp add: not_configured_def updateEvent_def updateEvent_impl_def handled_def getCalendar_invalid)

lemma deleteEvent_invalid:
  "\<not> isValidSettings cfg \<Longrightarrow> not_configured ''CalDAV Calendar: '' st (deleteEvent e cfg u st)"
  by (simp add: not_configured_def deleteEvent_def deleteEvent_impl_def handled_def getCalendar_invalid)

lemma createTodo_invalid:
  "\<not> isValidSettings cfg \<Longrightarrow>
   not_configured ''CalDAV Calendar (VTODO): '' st (createTodo e cfg todoData st)"
  by (simp add: not_configured_def createTodo_def createTodo_impl_def handled_def getCalendar_invalid)

lemma updateTodo_impl_invalid:
  "\<not> isValidSettings cfg \<Longrightarrow>
   updateTodo_impl e cfg u todoData st =
     (Inl (NotConfigured ''CalDAV Calendar: Not enough settings''), emit (SnackOpen ERR_NOT_CONFIGURED) st)"
  by (simp add: updateTodo_impl_def getCalendar_invalid)

lemma deleteTodo_invalid:
  "\<not> isValidSettings cfg \<Longrightarrow>
   not_configured ''CalDAV Calendar (VTODO): '' st (deleteTodo e cfg u st)"
  by (simp add: not_configured_def deleteTodo_def deleteTodo_impl_def handled_def getCalendar_invalid)

lemma testConnection_connects:
  "\<exists>rest. trace (snd (testConnection e st cfg)) = trace st @ NetConnect (caldavUrl cfg) # rest"
  by (simp add: testConnection_def Let_def split: promise.splits list.splits)

subsection \<open>Invalid configurations\<close>

text \<open>
  C7. When the configuration is disabled, or one of its four string fields is absent or
  empty, each of the seven sync operations fails with the not-configured error and makes
  no request to the server. \<open>testConnection\<close> checks nothing of the kind: whatever the
  configuration, its first step after clearing the cache is the connect request.
\<close>

theorem invalid_settings_not_configured:
  assumes "\<not> isEnabled cfg \<or> \<not> truthy (caldavUrl cfg) \<or> \<not> truthy (calendarName cfg)
           \<or> \<not> truthy (username cfg) \<or> \<not> truthy (password cfg)"
  shows "not_configured ''CalDAV Calendar: '' st (createEvent e cfg eventData st) \<and>
         not_configured ''CalDAV Calendar: '' st (updateEvent e cfg u partialEvent st) \<and>
         not_configured ''CalDAV Calendar: '' st (deleteEvent e cfg u st) \<and>
         not_configured ''CalDAV Calendar (VTODO): '' st (createTodo e cfg todoData st) \<and>
         not_configured ''CalDAV Calendar (VTODO): '' st (updateTodo e cfg u partialTodo st) \<and>
         not_configured ''CalDAV Calendar (VTODO): '' st (completeTodo e cfg u st) \<and>
         not_configured ''CalDAV Calendar (VTODO): '' st (deleteTodo e cfg u st) \<and>
         (\<exists>rest. trace (snd (testConnection e st cfg))
                   = trace st @ NetConnect (caldavUrl cfg) # rest)"
proof -
  from assms have inv: "\<not> isValidSettings cfg"
    by (auto simp: isValidSettings_iff)
  have ut: "not_configured ''CalDAV Calendar (VTODO): '' st (updateTodo e cfg u partialTodo st)"
    by (simp add: not_configured_def updateTodo_def handled_def updateTodo_impl_invalid [OF inv])
  have ct: "not_configured ''CalDAV Calendar (VTODO): '' st (completeTodo e cfg u st)"
    by (simp add: not_configured_def completeTodo_def handled_def updateTodo_impl_invalid [OF inv])
  show ?thesis
    using createEvent_invalid [OF inv] updateEvent_invalid [OF inv] deleteEvent_invalid [OF inv]
      createTodo_invalid [OF inv] deleteTodo_invalid [OF inv] ut ct testConnection_connects
    by blast
qed

theorem invalid_settings_not_configured_witness:
  "\<not> isEnabled (demo_cfg\<lparr>isEnabled := False\<rparr>) \<and>
   fst (createEvent demo_env (demo_cfg\<lparr>isEnabled := False\<rparr>) demo_eventData demo_state)
     = Inl (HandledError ''CalDAV Calendar: '' (NotConfigured ''CalDAV Calendar: Not enough settings'')) \<and>
   filter is_network (trace (snd (deleteTodo demo_env (demo_cfg\<lparr>isEnabled := False\<rparr>) ''sp-task-7'' demo_state))) = []"
  using invalid_settings_not_configured
    [of "demo_cfg\<lparr>isEnabled := False\<rparr>" demo_state demo_env demo_eventData "''sp-task-7''"
        no_eventData demo_todoData no_todoData]
  by (simp add: not_configured_def demo_cfg_def demo_state_def)

subsection \<open>Running an operation after the calendar is resolved\<close>

lemma findByUid_eq:
  "findByUid compType calendar u st =
     (case calendarQuery calendar [uidQuery compType u] of
        Rejected err \<Rightarrow> Inl (LibraryError err)
      | Resolved objs \<Rightarrow> Inr objs,
      emit (NetCalendarQuery (cal_url calendar) [uidQuery compType u]) st)"
  by (simp add: findByUid_def Let_def split: promise.splits)

lemma getCalendar_run:
  assumes "fst (getCalendar e cfg st) = r"
  obtains st1 where "getCalendar e cfg st = (r, st1)"
    and "filter is_write (trace st1) = filter is_write (trace st)"
proof -
  have "getCalendar e cfg st = (r, snd (getCalendar e cfg st))"
    using assms by (cases "getCalendar e cfg st") simp
  then show ?thesis
    using that getCalendar_no_write [of e cfg st] by blast
qed

lemma getCalendar_run_emit:
  assumes "fst (getCalendar e cfg st) = r" and "\<not> is_write x"
  shows "\<exists>st1. getCalendar e cfg (emit x st) = (r, st1) \<and>
           filter is_write (trace st1) = filter is_write (trace st)"
proof -
  have "fst (getCalendar e cfg (emit x st)) = r"
    using assms(1) by (simp add: getCalendar_emit)
  then obtain st1 where g: "getCalendar e cfg (emit x st) = (r, st1)"
    and w: "filter is_write (trace st1) = filter is_write (trace (emit x st))"
    by (rule getCalendar_run)
  from w assms(2) have "filter is_write (trace st1) = filter is_write (trace st)"
    by simp
  with g show ?thesis by blast
qed

lemma createEvent_readOnly:
  assumes "fst (getCalendar e cfg st) = Inr cal" and "readOnly cal"
  shows "read_only_rejected ''CalDAV Calendar: '' cfg st (createEvent e cfg eventData st)"
proof -
  obtain st1 where g: "getCalendar e cfg (emit (ConsoleLog ''CalDAV: Creating event'') st) = (Inr cal, st1)"
    and w: "filter is_write (trace st1) = filter is_write (trace st)"
    using getCalendar_run_emit [OF assms(1), of "ConsoleLog _"] by auto
  show ?thesis
    using assms(2) w
    by (simp add: read_only_rejected_def createEvent_def createEvent_impl_def handled_def g
        rejectReadOnly_def)
qed

lemma createTodo_readOnly:
  assumes "fst (getCalendar e cfg st) = Inr cal" and "readOnly cal"
  shows "read_only_rejected ''CalDAV Calendar (VTODO): '' cfg st (createTodo e cfg todoData st)"
proof -
  obtain st1 where g: "getCalendar e cfg (emit (ConsoleLog ''CalDAV: Creating VTODO'') st) = (Inr cal, st1)"
    and w: "filter is_write (trace st1) = filter is_write (trace st)"
    using getCalendar_run_emit [OF assms(1), of "ConsoleLog _"] by auto
  show ?thesis
    using assms(2) w
    by (simp add: read_only_rejected_def createTodo_def createTodo_impl_def handled_def g
        rejectReadOnly_def)
qed

lemma updateEvent_readOnly:
  assumes "fst (getCalendar e cfg st) = Inr cal" and "readOnly cal"
  shows "read_only_rejected ''CalDAV Calendar: '' cfg st (updateEvent e cfg u eventData st)"
proof -
  obtain st1 where g: "getCalendar e cfg st = (Inr cal, st1)"
    and w: "filter is_write (trace st1) = filter is_write (trace st)"
    using assms(1) by (rule getCalendar_run)
  show ?thesis
    using assms(2) w
    by (simp add: read_only_rejected_def updateEvent_def updateEvent_impl_def handled_def g
        rejectReadOnly_def)
qed

lemma updateTodo_impl_readOnly:
  assumes "fst (getCalendar e cfg st) = Inr cal" and "readOnly cal"
  shows "fst (updateTodo_impl e cfg u todoData st) = Inl (CalendarReadOnly (calendarName cfg)) \<and>
         filter is_write (trace (snd (updateTodo_impl e cfg u todoData st))) = filter is_write (trace st)"
proof -
  obtain st1 where g: "getCalendar e cfg st = (Inr cal, st1)"
    and w: "filter is_write (trace st1) = filter is_write (trace st)"
    using assms(1) by (rule getCalendar_run)
  show ?thesis
    using assms(2) w
    by (simp add: updateTodo_impl_def g rejectReadOnly_def)
qed

lemma handled_Inl:
  "fst r = Inl err \<Longrightarrow> fst (handled pfx r) = Inl (HandledError pfx err)"
  by (cases r) (simp add: handled_def)

lemma handled_Inr: "fst r = Inr x \<Longrightarrow> fst (handled pfx r) = Inr x"
  by (cases r) (simp add: handled_def)

lemma snd_handled [simp]: "snd (handled pfx r) = snd r"
  by (cases r) (simp add: handled_def split: sum.splits)

lemma deleteObject_issued:
  "vo_delete obj = Some answer \<Longrightarrow>
   \<exists>rest. trace (snd (deleteObject logText u obj st)) = trace st @ NetDelete obj # rest"
  by (simp add: deleteObject_def Let_def handleNetErr_def split: promise.splits)

lemma deleteEvent_attempted:
  assumes "fst (getCalendar e cfg st) = Inr cal"
    and "calendarQuery cal [uidQuery ''VEVENT'' u] = Resolved (obj # objs)"
    and "vo_delete obj = Some answer"
  shows "NetDelete obj \<in> set (trace (snd (deleteEvent e cfg u st)))"
proof -
  obtain st1 where g: "getCalendar e cfg st = (Inr cal, st1)"
    using assms(1) by (rule getCalendar_run)
  show ?thesis
    using deleteObject_issued [OF assms(3)]
    apply (simp add: deleteEvent_def deleteEvent_impl_def g findEventByUid_def findByUid_eq assms(2))
    by (metis in_set_conv_decomp)
qed

lemma deleteTodo_attempted:
  assumes "fst (getCalendar e cfg st) = Inr cal"
    and "calendarQuery cal [uidQuery ''VTODO'' u] = Resolved (obj # objs)"
    and "vo_delete obj = Some answer"
  shows "NetDelete obj \<in> set (trace (snd (deleteTodo e cfg u st)))"
proof -
  obtain st1 where g: "getCalendar e cfg st = (Inr cal, st1)"
    using assms(1) by (rule getCalendar_run)
  show ?thesis
    using deleteObject_issued [OF assms(3)]
    apply (simp add: deleteTodo_def deleteTodo_impl_def g findTodoByUid_def findByUid_eq assms(2))
    by (metis in_set_conv_decomp)
qed

subsection \<open>The concrete server resolves its calendars\<close>

lemma demo_getCalendar_home:
  "fst (getCalendar demo_env demo_home_cfg demo_state) = Inr demo_home"
  by (simp add: getCalendar_def getClient_def checkSettings_def isValidSettings_def
      demo_home_cfg_def demo_cfg_def demo_state_def demo_env_def calendarNameOf_def
      demo_home_def Let_def)

lemma demo_getCalendar_work:
  "fst (getCalendar demo_env demo_cfg demo_state) = Inr demo_work"
  by (simp add: getCalendar_def getClient_def checkSettings_def isValidSettings_def
      demo_cfg_def demo_state_def demo_env_def calendarNameOf_def
      demo_home_def demo_work_def Let_def)

subsection \<open>Read-only calendars\<close>

text \<open>
  C3. When the calendar that the configuration resolves to is read-only, createEvent,
  updateEvent, createTodo and updateTodo fail with the read-only error and issue no write.
  deleteEvent and deleteTodo do not look at the flag: on the same read-only calendar, when
  the query finds an object that carries a delete capability, the delete request is issued.
\<close>

theorem read_only_calendar_rejects_create_update:
  assumes "fst (getCalendar e cfg st) = Inr cal" and "readOnly cal"
  shows "read_only_rejected ''CalDAV Calendar: '' cfg st (createEvent e cfg eventData st) \<and>
         read_only_rejected ''CalDAV Calendar: '' cfg st (updateEvent e cfg u partialEvent st) \<and>
         read_only_rejected ''CalDAV Calendar (VTODO): '' cfg st (createTodo e cfg todoData st) \<and>
         read_only_rejected ''CalDAV Calendar (VTODO): '' cfg st (updateTodo e cfg u partialTodo st) \<and>
         (\<forall>obj objs answer.
            calendarQuery cal [uidQuery ''VEVENT'' u] = Resolved (obj # objs) \<and>
            vo_delete obj = Some answer \<longrightarrow>
            NetDelete obj \<in> set (trace (snd (deleteEvent e cfg u st)))) \<and>
         (\<forall>obj objs answer.
            calendarQuery cal [uidQuery ''VTODO'' u] = Resolved (obj # objs) \<and>
            vo_delete obj = Some answer \<longrightarrow>
            NetDelete obj \<in> set (trace (snd (deleteTodo e cfg u st))))"
proof -
  have ut: "read_only_rejected ''CalDAV Calendar (VTODO): '' cfg st (updateTodo e cfg u partialTodo st)"
    using updateTodo_impl_readOnly [OF assms, of u partialTodo]
    by (simp add: read_only_rejected_def updateTodo_def handled_Inl)
  show ?thesis
    using createEvent_readOnly [OF assms] updateEvent_readOnly [OF assms]
      createTodo_readOnly [OF assms] ut
      deleteEvent_attempted [OF assms(1)] deleteTodo_attempted [OF assms(1)]
    by blast
qed

theorem read_only_calendar_rejects_create_update_witness:
  "fst (getCalendar demo_env demo_home_cfg demo_state) = Inr demo_home \<and> readOnly demo_home \<and>
   calendarQuery demo_home [uidQuery ''VEVENT'' ''sp-task-42''] = Resolved [demo_event] \<and>
   vo_delete demo_event = Some (Resolved ()) \<and>
   calendarQuery demo_home [uidQuery ''VTODO'' ''sp-task-7''] = Resolved [demo_todo] \<and>
   vo_delete demo_todo = Some (Resolved ()) \<and>
   fst (createEvent demo_env demo_home_cfg demo_eventData demo_state)
     = Inl (HandledError ''CalDAV Calendar: '' (CalendarReadOnly (calendarName demo_home_cfg))) \<and>
   NetDelete demo_event \<in> set (trace (snd (deleteEvent demo_env demo_home_cfg ''sp-task-42'' demo_state))) \<and>
   NetDelete demo_todo \<in> set (trace (snd (deleteTodo demo_env demo_home_cfg ''sp-task-7'' demo_state)))"
proof -
  have ro: "readOnly demo_home"
    by (simp add: demo_home_def)
  have q: "calendarQuery demo_home [uidQuery ''VEVENT'' ''sp-task-42''] = Resolved [demo_event]"
    "calendarQuery demo_home [uidQuery ''VTODO'' ''sp-task-7''] = Resolved [demo_todo]"
    by (simp_all add: demo_home_def uidQuery_def)
  have d: "vo_delete demo_event = Some (Resolved ())" "vo_delete demo_todo = Some (Resolved ())"
    by (simp_all add: demo_event_def demo_todo_def)
  show ?thesis
    using read_only_calendar_rejects_create_update
      [OF demo_getCalendar_home ro, of demo_eventData "''sp-task-42''" no_eventData
         demo_todoData no_todoData]
      read_only_calendar_rejects_create_update
      [OF demo_getCalendar_home ro, of demo_eventData "''sp-task-7''" no_eventData
         demo_todoData no_todoData]
      demo_getCalendar_home ro q d
    by (simp add: read_only_rejected_def)
qed

subsection \<open>Uids without a match\<close>

lemma updateEvent_no_match:
  assumes "fst (getCalendar e cfg st) = Inr cal" and "\<not> readOnly cal"
    and "calendarQuery cal [uidQuery ''VEVENT'' u] = Resolved []"
  shows "no_match_noop ''CalDAV Calendar: Event not found for update'' u st
           (updateEvent e cfg u eventData st)"
proof -
  obtain st1 where g: "getCalendar e cfg st = (Inr cal, st1)"
    and w: "filter is_write (trace st1) = filter is_write (trace st)"
    using assms(1) by (rule getCalendar_run)
  show ?thesis
    using assms(2) w
    by (simp add: no_match_noop_def updateEvent_def updateEvent_impl_def handled_def g
        findEventByUid_def findByUid_eq assms(3))
qed

lemma updateTodo_no_match:
  assumes "fst (getCalendar e cfg st) = Inr cal" and "\<not> readOnly cal"
    and "calendarQuery cal [uidQuery ''VTODO'' u] = Resolved []"
  shows "no_match_noop ''CalDAV Calendar: VTODO not found for update'' u st
           (updateTodo e cfg u todoData st)"
proof -
  obtain st1 where g: "getCalendar e cfg st = (Inr cal, st1)"
    and w: "filter is_write (trace st1) = filter is_write (trace st)"
    using assms(1) by (rule getCalendar_run)
  show ?thesis
    using assms(2) w
    by (simp add: no_match_noop_def updateTodo_def updateTodo_impl_def handled_def g
        findTodoByUid_def findByUid_eq assms(3))
qed

lemma deleteEvent_no_match:
  assumes "fst (getCalendar e cfg st) = Inr cal"
    and "calendarQuery cal [uidQuery ''VEVENT'' u] = Resolved []"
  shows "no_match_noop ''CalDAV Calendar: Event not found for deletion'' u st
           (deleteEvent e cfg u st)"
proof -
  obtain st1 where g: "getCalendar e cfg st = (Inr cal, st1)"
    and w: "filter is_write (trace st1) = filter is_write (trace st)"
    using assms(1) by (rule getCalendar_run)
  show ?thesis
    using w
    by (simp add: no_match_noop_def deleteEvent_def deleteEvent_impl_def handled_def g
        findEventByUid_def findByUid_eq assms(2))
qed

lemma deleteTodo_no_match:
  assumes "fst (getCalendar e cfg st) = Inr cal"
    and "calendarQuery cal [uidQuery ''VTODO'' u] = Resolved []"
  shows "no_match_noop ''CalDAV Calendar: VTODO not found for deletion'' u st
           (deleteTodo e cfg u st)"
proof -
  obtain st1 where g: "getCalendar e cfg st = (Inr cal, st1)"
    and w: "filter is_write (trace st1) = filter is_write (trace st)"
    using assms(1) by (rule getCalendar_run)
  show ?thesis
    using w
    by (simp add: no_match_noop_def deleteTodo_def deleteTodo_impl_def handled_def g
        findTodoByUid_def findByUid_eq assms(2))
qed

text \<open>
  C4. When the locate query answers with no object, updateEvent, deleteEvent, updateTodo
  and deleteTodo return without an error, issue no write or delete, and end by logging the
  warning. (The update methods reach the query only on a writable calendar.)
\<close>

theorem zero_matches_is_a_logged_noop:
  assumes "fst (getCalendar e cfg st) = Inr cal"
  shows "(\<not> readOnly cal \<and> calendarQuery cal [uidQuery ''VEVENT'' u] = Resolved [] \<longrightarrow>
            no_match_noop ''CalDAV Calendar: Event not found for update'' u st
              (updateEvent e cfg u partialEvent st)) \<and>
         (calendarQuery cal [uidQuery ''VEVENT'' u] = Resolved [] \<longrightarrow>
            no_match_noop ''CalDAV Calendar: Event not found for deletion'' u st
              (deleteEvent e cfg u st)) \<and>
         (\<not> readOnly cal \<and> calendarQuery cal [uidQuery ''VTODO'' u] = Resolved [] \<longrightarrow>
            no_match_noop ''CalDAV Calendar: VTODO not found for update'' u st
              (updateTodo e cfg u partialTodo st)) \<and>
         (calendarQuery cal [uidQuery ''VTODO'' u] = Resolved [] \<longrightarrow>
            no_match_noop ''CalDAV Calendar: VTODO not found for deletion'' u st
              (deleteTodo e cfg u st))"
  using updateEvent_no_match [OF assms] deleteEvent_no_match [OF assms]
    updateTodo_no_match [OF assms] deleteTodo_no_match [OF assms]
  by blast

theorem zero_matches_is_a_logged_noop_witness:
  "fst (getCalendar demo_env demo_cfg demo_state) = Inr demo_work \<and>
   \<not> readOnly demo_work \<and>
   calendarQuery demo_work [uidQuery ''VEVENT'' ''gone''] = Resolved [] \<and>
   calendarQuery demo_work [uidQuery ''VTODO'' ''gone''] = Resolved [] \<and>
   fst (updateEvent demo_env demo_cfg ''gone'' no_eventData demo_state) = Inr () \<and>
   fst (deleteEvent demo_env demo_cfg ''gone'' demo_state) = Inr () \<and>
   fst (updateTodo demo_env demo_cfg ''gone'' no_todoData demo_state) = Inr () \<and>
   last (trace (snd (deleteTodo demo_env demo_cfg ''gone'' demo_state)))
     = LogWarn ''CalDAV Calendar: VTODO not found for deletion'' ''gone''"
proof -
  have rw: "\<not> readOnly demo_work"
    by (simp add: demo_work_def)
  have q1: "calendarQuery demo_work [uidQuery ''VEVENT'' ''gone''] = Resolved []"
    by (simp add: demo_work_def uidQuery_def)
  have q2: "calendarQuery demo_work [uidQuery ''VTODO'' ''gone''] = Resolved []"
    by (simp add: demo_work_def uidQuery_def)
  show ?thesis
    using zero_matches_is_a_logged_noop
      [OF demo_getCalendar_work, of "''gone''" no_eventData no_todoData]
      demo_getCalendar_work rw q1 q2
    by (simp add: no_match_noop_def)
qed

subsection \<open>The connection tester\<close>

text \<open>
  C5. For a configuration whose calendarName is a non-empty name that the listing of the
  first calendar home does not contain, testConnection ends with an empty session cache
  and returns success = true, the names of all listed calendars (the display name, or the
  last segment of the URL where a calendar has none), and the error text
  \<open>Calendar "<name>" not found. Available: \<close> followed by the names joined by comma and
  space. When the connect request is refused it returns success = false with the message
  of the failure, the cache being empty as well.
\<close>

theorem testConnection_reports_missing_calendar:
  "(calendarName cfg = Some name \<and> name \<noteq> [] \<and>
    connect e (caldavUrl cfg) (username cfg) (password cfg) = Resolved (home # homes) \<and>
    findAllCalendars home = Resolved cals \<and>
    name \<notin> set (map calendarNameOf cals) \<longrightarrow>
      fst (testConnection e st cfg) =
        \<lparr>success = True, calendars_listed = Some (map calendarNameOf cals),
         error_text = Some (''Calendar '' @ [dquote] @ name @ [dquote]
                            @ '' not found. Available: ''
                            @ join '', '' (map calendarNameOf cals))\<rparr> \<and>
      clientCache (snd (testConnection e st cfg)) = Map.empty) \<and>
   (connect e (caldavUrl cfg) (username cfg) (password cfg) = Rejected err \<longrightarrow>
      fst (testConnection e st cfg) =
        \<lparr>success = False, calendars_listed = None, error_text = Some err\<rparr> \<and>
      clientCache (snd (testConnection e st cfg)) = Map.empty)"
  by (simp add: testConnection_def Let_def emit_def)

theorem testConnection_reports_missing_calendar_witness:
  "calendarName demo_other_cfg = Some ''Work'' \<and>
   fst (testConnection demo_env demo_state demo_other_cfg) =
     \<lparr>success = True, calendars_listed = Some [''Home'', ''Personal''],
      error_text = Some (''Calendar '' @ [dquote] @ ''Work'' @ [dquote]
                         @ '' not found. Available: Home, Personal'')\<rparr> \<and>
   connect demo_env (caldavUrl demo_offline_cfg) (username demo_offline_cfg)
     (password demo_offline_cfg) = Rejected ''connection refused'' \<and>
   success (fst (testConnection demo_env demo_state demo_offline_cfg)) = False"
proof -
  have n: "calendarName demo_other_cfg = Some ''Work''"
    by (simp add: demo_other_cfg_def demo_cfg_def)
  have c: "connect demo_env (caldavUrl demo_other_cfg) (username demo_other_cfg)
             (password demo_other_cfg)
           = Resolved [\<lparr>findAllCalendars = Resolved [demo_home, demo_personal]\<rparr>]"
    by (simp add: demo_other_cfg_def demo_cfg_def demo_env_def)
  have names: "map calendarNameOf [demo_home, demo_personal] = [''Home'', ''Personal'']"
    by (simp add: calendarNameOf_def demo_home_def demo_personal_def getCalendarUriFromUrl_def)
  have r: "connect demo_env (caldavUrl demo_offline_cfg) (username demo_offline_cfg)
             (password demo_offline_cfg) = Rejected ''connection refused''"
    by (simp add: demo_offline_cfg_def demo_cfg_def demo_env_def)
  show ?thesis
    using testConnection_reports_missing_calendar
      [of demo_other_cfg "''Work''" demo_env "\<lparr>findAllCalendars = Resolved [demo_home, demo_personal]\<rparr>"
          "[]" "[demo_home, demo_personal]" demo_state "''connection refused''"]
      testConnection_reports_missing_calendar
      [of demo_offline_cfg "''Work''" demo_env "\<lparr>findAllCalendars = Resolved [demo_home, demo_personal]\<rparr>"
          "[]" "[demo_home, demo_personal]" demo_state "''connection refused''"]
      n c r names
    by simp
qed

subsection \<open>Creating an event\<close>

lemma sublistI: "ys = ps @ xs @ ss \<Longrightarrow> sublist xs ys"
  by simp

lemma createEvent_impl_run:
  assumes "fst (getCalendar e cfg st) = Inr cal" and "\<not> readOnly cal"
    and "formatIcalDateTime e (Date_now e) = Resolved now"
    and "formatIcalDateTime e (e_start eventData) = Resolved dtstart"
    and "formatIcalDateTime e (e_end eventData) = Resolved dtend"
    and "theUid = (if e_uid eventData \<noteq> [] then e_uid eventData else generateUid e)"
    and "icalData = eventIcalData theUid now dtstart dtend eventData"
  shows "fst (createEvent_impl e cfg eventData st) =
           (case createVObject cal icalData of
              Rejected err \<Rightarrow> Inl (NetworkError err) | Resolved _ \<Rightarrow> Inr theUid) \<and>
         filter is_write (trace (snd (createEvent_impl e cfg eventData st))) =
           filter is_write (trace st) @ [NetCreateVObject (cal_url cal) icalData]"
proof -
  obtain st1 where g: "getCalendar e cfg (emit (ConsoleLog ''CalDAV: Creating event'') st) = (Inr cal, st1)"
    and w: "filter is_write (trace st1) = filter is_write (trace st)"
    using getCalendar_run_emit [OF assms(1), of "ConsoleLog _"] by auto
  show ?thesis
    using assms(2) w
    by (simp add: createEvent_impl_def g assms(3,4,5) assms(6,7) [symmetric] Let_def handleNetErr_def
        split: promise.splits)
qed

text \<open>
  C6. On a calendar that resolves and is writable, with timestamps that format and a
  server that accepts the object, createEvent returns the uid of the event record, or
  \<open>sp-\<close> followed by the random UUID when the record's uid is empty. The one write
  it issues carries the ICS text of the template, which has the lines \<open>UID:<uid>\<close>,
  \<open>SEQUENCE:0\<close>, \<open>VERSION:2.0\<close> and the fixed \<open>PRODID\<close> line.
\<close>

theorem createEvent_returns_uid_and_writes_ics:
  assumes "fst (getCalendar e cfg st) = Inr cal" and "\<not> readOnly cal"
    and "formatIcalDateTime e (Date_now e) = Resolved now"
    and "formatIcalDateTime e (e_start eventData) = Resolved dtstart"
    and "formatIcalDateTime e (e_end eventData) = Resolved dtend"
    and "theUid = (if e_uid eventData \<noteq> [] then e_uid eventData else ''sp-'' @ randomUUID e)"
    and "icalData = eventIcalData theUid now dtstart dtend eventData"
    and "createVObject cal icalData = Resolved ()"
  shows "fst (createEvent e cfg eventData st) = Inr theUid \<and>
         filter is_write (trace (snd (createEvent e cfg eventData st))) =
           filter is_write (trace st) @ [NetCreateVObject (cal_url cal) icalData] \<and>
         sublist ([newline] @ ''UID:'' @ theUid @ [newline]) icalData \<and>
         sublist ([newline] @ ''SEQUENCE:0'' @ [newline]) icalData \<and>
         sublist ([newline] @ ''VERSION:2.0'' @ [newline]) icalData \<and>
         sublist ([newline] @ ''PRODID:-//Super Productivity//CalDAV Calendar Sync//EN'' @ [newline])
           icalData"
proof -
  have u: "theUid = (if e_uid eventData \<noteq> [] then e_uid eventData else generateUid e)"
    using assms(6) by (simp add: generateUid_def)
  have run: "fst (createEvent e cfg eventData st) = Inr theUid \<and>
         filter is_write (trace (snd (createEvent e cfg eventData st))) =
           filter is_write (trace st) @ [NetCreateVObject (cal_url cal) icalData]"
    using createEvent_impl_run [OF assms(1-5) u assms(7)] assms(8)
    by (simp add: createEvent_def handled_Inr)
  have l1: "sublist ([newline] @ ''UID:'' @ theUid @ [newline]) icalData"
    by (rule sublistI [where
          ps = "''BEGIN:VCALENDAR'' @ [newline] @ ''VERSION:2.0'' @ [newline] @
                ''PRODID:-//Super Productivity//CalDAV Calendar Sync//EN'' @ [newline] @
                ''BEGIN:VEVENT''"
          and ss = "''DTSTAMP:'' @ now @ [newline] @ ''DTSTART:'' @ dtstart @ [newline] @
                ''DTEND:'' @ dtend @ [newline] @
                ''SUMMARY:'' @ escapeIcalText (e_summary eventData) @ [newline] @
                (if truthy (e_description eventData)
                 then ''DESCRIPTION:'' @ escapeIcalText (str (e_description eventData)) else [])
                @ [newline] @ ''SEQUENCE:0'' @ [newline] @ ''END:VEVENT'' @ [newline] @
                ''END:VCALENDAR''"])
       (simp add: assms(7) eventIcalData_def)
  have l2: "sublist ([newline] @ ''SEQUENCE:0'' @ [newline]) icalData"
    by (rule sublistI [where
          ps = "''BEGIN:VCALENDAR'' @ [newline] @ ''VERSION:2.0'' @ [newline] @
                ''PRODID:-//Super Productivity//CalDAV Calendar Sync//EN'' @ [newline] @
                ''BEGIN:VEVENT'' @ [newline] @ ''UID:'' @ theUid @ [newline] @
                ''DTSTAMP:'' @ now @ [newline] @ ''DTSTART:'' @ dtstart @ [newline] @
                ''DTEND:'' @ dtend @ [newline] @
                ''SUMMARY:'' @ escapeIcalText (e_summary eventData) @ [newline] @
                (if truthy (e_description eventData)
                 then ''DESCRIPTION:'' @ escapeIcalText (str (e_description eventData)) else [])"
          and ss = "''END:VEVENT'' @ [newline] @ ''END:VCALENDAR''"])
       (simp add: assms(7) eventIcalData_def)
  have l3: "sublist ([newline] @ ''VERSION:2.0'' @ [newline]) icalData"
    by (rule sublistI [where
          ps = "''BEGIN:VCALENDAR''"
          and ss = "''PRODID:-//Super Productivity//CalDAV Calendar Sync//EN'' @ [newline] @
                ''BEGIN:VEVENT'' @ [newline] @ ''UID:'' @ theUid @ [newline] @
                ''DTSTAMP:'' @ now @ [newline] @ ''DTSTART:'' @ dtstart @ [newline] @
                ''DTEND:'' @ dtend @ [newline] @
                ''SUMMARY:'' @ escapeIcalText (e_summary eventData) @ [newline] @
                (if truthy (e_description eventData)
                 then ''DESCRIPTION:'' @ escapeIcalText (str (e_description eventData)) else [])
                @ [newline] @ ''SEQUENCE:0'' @ [newline] @ ''END:VEVENT'' @ [newline] @
                ''END:VCALENDAR''"])
       (simp add: assms(7) eventIcalData_def)
  have l4: "sublist ([newline] @ ''PRODID:-//Super Productivity//CalDAV Calendar Sync//EN''
                     @ [newline]) icalData"
    by (rule sublistI [where
          ps = "''BEGIN:VCALENDAR'' @ [newline] @ ''VERSION:2.0''"
          and ss = "''BEGIN:VEVENT'' @ [newline] @ ''UID:'' @ theUid @ [newline] @
                ''DTSTAMP:'' @ now @ [newline] @ ''DTSTART:'' @ dtstart @ [newline] @
                ''DTEND:'' @ dtend @ [newline] @
                ''SUMMARY:'' @ escapeIcalText (e_summary eventData) @ [newline] @
                (if truthy (e_description eventData)
                 then ''DESCRIPTION:'' @ escapeIcalText (str (e_description eventData)) else [])
                @ [newline] @ ''SEQUENCE:0'' @ [newline] @ ''END:VEVENT'' @ [newline] @
                ''END:VCALENDAR''"])
       (simp add: assms(7) eventIcalData_def)
  from run l1 l2 l3 l4 show ?thesis by blast
qed

theorem createEvent_returns_uid_and_writes_ics_witness:
  "fst (getCalendar demo_env demo_cfg demo_state) = Inr demo_work \<and> \<not> readOnly demo_work \<and>
   formatIcalDateTime demo_env (Date_now demo_env) = Resolved ''20231114T221320Z'' \<and>
   createVObject demo_work
     (eventIcalData ''sp-task-42'' ''20231114T221320Z'' ''20231114T221320Z'' ''20231114T221320Z''
        demo_eventData) = Resolved () \<and>
   fst (createEvent demo_env demo_cfg demo_eventData demo_state) = Inr ''sp-task-42'' \<and>
   fst (createEvent demo_env demo_cfg (demo_eventData\<lparr>e_uid := []\<rparr>) demo_state)
     = Inr ''sp-123e4567-e89b-42d3-a456-426614174000''"
proof -
  have rw: "\<not> readOnly demo_work"
    by (simp add: demo_work_def)
  have f: "\<And>t. formatIcalDateTime demo_env t = Resolved ''20231114T221320Z''"
    by (simp add: formatIcalDateTime_def demo_env_def isDigit_def)
  have c: "\<And>d. createVObject demo_work d = Resolved ()"
    by (simp add: demo_work_def)
  have u1: "''sp-task-42'' = (if e_uid demo_eventData \<noteq> [] then e_uid demo_eventData
                              else ''sp-'' @ randomUUID demo_env)"
    by (simp add: demo_eventData_def)
  have u2: "''sp-123e4567-e89b-42d3-a456-426614174000''
              = (if e_uid (demo_eventData\<lparr>e_uid := []\<rparr>) \<noteq> []
                 then e_uid (demo_eventData\<lparr>e_uid := []\<rparr>) else ''sp-'' @ randomUUID demo_env)"
    by (simp add: demo_env_def)
  show ?thesis
    using createEvent_returns_uid_and_writes_ics
            [OF demo_getCalendar_work rw f f f u1 refl c]
          createEvent_returns_uid_and_writes_ics
            [OF demo_getCalendar_work rw f f f u2 refl c]
          demo_getCalendar_work rw f c
    by simp
qed

text \<open>
  C10. For an event record without a description, the ICS text that createEvent writes
  has an empty line between the SUMMARY line and the SEQUENCE line: the interpolation
  contributes nothing, and the line breaks around it stay.
\<close>

theorem createEvent_blank_line_without_description:
  assumes "fst (getCalendar e cfg st) = Inr cal" and "\<not> readOnly cal"
    and "formatIcalDateTime e (Date_now e) = Resolved now"
    and "formatIcalDateTime e (e_start eventData) = Resolved dtstart"
    and "formatIcalDateTime e (e_end eventData) = Resolved dtend"
    and "e_description eventData = None"
  shows "\<exists>icalData.
           filter is_write (trace (snd (createEvent e cfg eventData st))) =
             filter is_write (trace st) @ [NetCreateVObject (cal_url cal) icalData] \<and>
           sublist ([newline] @ ''SUMMARY:'' @ escapeIcalText (e_summary eventData) @ [newline]
                    @ [] @ [newline] @ ''SEQUENCE:0'' @ [newline]) icalData"
proof -
  define theUid where "theUid = (if e_uid eventData \<noteq> [] then e_uid eventData else generateUid e)"
  define icalData where "icalData = eventIcalData theUid now dtstart dtend eventData"
  have w: "filter is_write (trace (snd (createEvent e cfg eventData st))) =
             filter is_write (trace st) @ [NetCreateVObject (cal_url cal) icalData]"
    using createEvent_impl_run [OF assms(1-5) theUid_def icalData_def]
    by (simp add: createEvent_def)
  have l: "sublist ([newline] @ ''SUMMARY:'' @ escapeIcalText (e_summary eventData) @ [newline]
                    @ [] @ [newline] @ ''SEQUENCE:0'' @ [newline]) icalData"
    by (rule sublistI [where
          ps = "''BEGIN:VCALENDAR'' @ [newline] @ ''VERSION:2.0'' @ [newline] @
                ''PRODID:-//Super Productivity//CalDAV Calendar Sync//EN'' @ [newline] @
                ''BEGIN:VEVENT'' @ [newline] @ ''UID:'' @ theUid @ [newline] @
                ''DTSTAMP:'' @ now @ [newline] @ ''DTSTART:'' @ dtstart @ [newline] @
                ''DTEND:'' @ dtend"
          and ss = "''END:VEVENT'' @ [newline] @ ''END:VCALENDAR''"])
       (simp add: icalData_def eventIcalData_def assms(6))
  from w l show ?thesis by blast
qed

theorem createEvent_blank_line_without_description_witness:
  "fst (getCalendar demo_env demo_cfg demo_state) = Inr demo_work \<and> \<not> readOnly demo_work \<and>
   formatIcalDateTime demo_env (e_start demo_eventData) = Resolved ''20231114T221320Z'' \<and>
   e_description demo_eventData = None \<and>
   (\<exists>icalData.
      filter is_write (trace (snd (createEvent demo_env demo_cfg demo_eventData demo_state))) =
        [NetCreateVObject ''/cal/work/'' icalData] \<and>
      sublist ([newline] @ ''SUMMARY:Write report'' @ [newline, newline] @ ''SEQUENCE:0'' @ [newline])
        icalData)"
proof -
  have rw: "\<not> readOnly demo_work"
    by (simp add: demo_work_def)
  have f: "\<And>t. formatIcalDateTime demo_env t = Resolved ''20231114T221320Z''"
    by (simp add: formatIcalDateTime_def demo_env_def isDigit_def)
  have d: "e_description demo_eventData = None"
    by (simp add: demo_eventData_def)
  have s: "escapeIcalText (e_summary demo_eventData) = ''Write report''"
    by (simp add: demo_eventData_def escapeIcalText_def)
  have u: "cal_url demo_work = ''/cal/work/''"
    by (simp add: demo_work_def)
  show ?thesis
    using createEvent_blank_line_without_description
            [OF demo_getCalendar_work rw f f f d]
          demo_getCalendar_work rw f d
    by (simp add: s u demo_state_def)
qed

subsection \<open>Updates of a located object\<close>

lemma map_of_setFirst: "map_of (setFirst name v ps) = (map_of ps)(name \<mapsto> v)"
  by (induction ps) (auto simp: fun_eq_iff)

lemma getFirstPropertyValue_update:
  "getFirstPropertyValue (updatePropertyWithValue c name v) name' =
     (if name' = name then Some v else getFirstPropertyValue c name')"
  by (simp add: getFirstPropertyValue_def updatePropertyWithValue_def map_of_setFirst)

lemma comp_name_update [simp]: "comp_name (updatePropertyWithValue c name v) = comp_name c"
  by (simp add: updatePropertyWithValue_def)

lemma applySummary_other:
  "name \<noteq> ''summary'' \<Longrightarrow>
   getFirstPropertyValue (fst (applySummary s vc)) name = getFirstPropertyValue (fst vc) name"
  by (simp add: applySummary_def Let_def getFirstPropertyValue_update split: option.splits)

lemma applyField_other:
  "name \<noteq> field \<Longrightarrow>
   getFirstPropertyValue (fst (applyField field v vc)) name = getFirstPropertyValue (fst vc) name"
  by (simp add: applyField_def getFirstPropertyValue_update split: option.splits)


lemma applyEventData_sequence:
  "getFirstPropertyValue (fst (applyEventData eventData vevent)) ''sequence''
     = getFirstPropertyValue vevent ''sequence''"
  by (simp add: applyEventData_def applyField_other applySummary_other)


lemma comp_name_applySummary [simp]: "comp_name (fst (applySummary s vc)) = comp_name (fst vc)"
  by (simp add: applySummary_def Let_def split: option.splits)

lemma comp_name_applyField [simp]: "comp_name (fst (applyField f v vc)) = comp_name (fst vc)"
  by (simp add: applyField_def split: option.splits)

lemma comp_name_applyStatus [simp]: "comp_name (fst (applyStatus e s vc)) = comp_name (fst vc)"
  by (simp add: applyStatus_def Let_def split: option.splits)

lemma comp_name_stampRevision [simp]: "comp_name (stampRevision e v) = comp_name v"
  by (simp add: stampRevision_def Let_def)

lemma applyEventData_changed:
  "snd (applyEventData eventData vevent) \<longleftrightarrow>
     pe_start eventData \<noteq> None \<or> pe_end eventData \<noteq> None \<or> pe_description eventData \<noteq> None \<or>
     (pe_summary eventData \<noteq> None \<and>
      map_option Text (pe_summary eventData) \<noteq> getFirstPropertyValue vevent ''summary'')"
  by (auto simp: applyEventData_def applyField_def applySummary_def Let_def split: option.splits)

lemma applyTodoData_changed:
  "snd (applyTodoData e todoData vtodo) \<longleftrightarrow>
     pt_description todoData \<noteq> None \<or> pt_status todoData \<noteq> None \<or>
     pt_percentComplete todoData \<noteq> None \<or> pt_priority todoData \<noteq> None \<or>
     pt_dueDate todoData \<noteq> None \<or>
     (pt_summary todoData \<noteq> None \<and>
      map_option Text (pt_summary todoData) \<noteq> getFirstPropertyValue vtodo ''summary'')"
  by (auto simp: applyTodoData_def applyField_def applySummary_def applyStatus_def Let_def
      split: option.splits)

lemma stampRevision_sequence:
  "getFirstPropertyValue (stampRevision e v) ''sequence''
     = Some (Number (sequenceInt e (getFirstPropertyValue v ''sequence'')))"
  by (simp add: stampRevision_def Let_def getFirstPropertyValue_update)




lemma writeBack_writes:
  "filter is_write (trace (snd (writeBack e logText u obj jCal st))) =
     filter is_write (trace st) @
       (case vo_update obj of None \<Rightarrow> []
        | Some _ \<Rightarrow> [NetUpdate (obj\<lparr>vo_data := ICAL_stringify e jCal\<rparr>)])"
  by (simp add: writeBack_def Let_def handleNetErr_def split: option.splits promise.splits)

lemma writeBack_no_capability:
  "vo_update obj = None \<Longrightarrow>
   writeBack e logText u obj jCal st = (Inr (), emit (LogLog logText u) st)"
  by (simp add: writeBack_def Let_def)

lemma deleteObject_no_capability:
  "vo_delete obj = None \<Longrightarrow>
   deleteObject logText u obj st = (Inr (), emit (LogLog logText u) st)"
  by (simp add: deleteObject_def)


lemma updateEvent_impl_located:
  assumes "fst (getCalendar e cfg st) = Inr cal" and "\<not> readOnly cal"
    and "calendarQuery cal [uidQuery ''VEVENT'' u] = Resolved (event # rest)"
    and "ICAL_parse e (vo_data event) = Resolved jCal"
    and "getFirstSubcomponent jCal ''vevent'' = Some vevent"
  shows "updateEvent_impl e cfg u eventData st =
           (if \<not> snd (applyEventData eventData vevent)
            then (Inr (), emit (NetCalendarQuery (cal_url cal) [uidQuery ''VEVENT'' u])
                            (snd (getCalendar e cfg st)))
            else writeBack e ''CalDAV Calendar: Updated event'' u event
                   (putFirstSubcomponent jCal ''vevent''
                      (stampRevision e (fst (applyEventData eventData vevent))))
                   (emit (NetCalendarQuery (cal_url cal) [uidQuery ''VEVENT'' u])
                      (snd (getCalendar e cfg st))))"
proof -
  obtain st1 where g: "getCalendar e cfg st = (Inr cal, st1)"
    using assms(1) by (rule getCalendar_run)
  show ?thesis
    using assms(2)
    by (simp add: updateEvent_impl_def g findEventByUid_def findByUid_eq assms(3,4,5)
        split: prod.splits)
qed

lemma updateTodo_impl_located:
  assumes "fst (getCalendar e cfg st) = Inr cal" and "\<not> readOnly cal"
    and "calendarQuery cal [uidQuery ''VTODO'' u] = Resolved (todo # rest)"
    and "ICAL_parse e (vo_data todo) = Resolved jCal"
    and "getFirstSubcomponent jCal ''vtodo'' = Some vtodo"
  shows "updateTodo_impl e cfg u todoData st =
           (if \<not> snd (applyTodoData e todoData vtodo)
            then (Inr (), emit (NetCalendarQuery (cal_url cal) [uidQuery ''VTODO'' u])
                            (snd (getCalendar e cfg st)))
            else writeBack e ''CalDAV Calendar: Updated VTODO'' u todo
                   (putFirstSubcomponent jCal ''vtodo''
                      (stampRevision e (fst (applyTodoData e todoData vtodo))))
                   (emit (NetCalendarQuery (cal_url cal) [uidQuery ''VTODO'' u])
                      (snd (getCalendar e cfg st))))"
proof -
  obtain st1 where g: "getCalendar e cfg st = (Inr cal, st1)"
    using assms(1) by (rule getCalendar_run)
  show ?thesis
    using assms(2)
    by (simp add: updateTodo_impl_def g findTodoByUid_def findByUid_eq assms(3,4,5)
        split: prod.splits)
qed

lemma updateEvent_impl_write_path:
  assumes "filter is_write (trace (snd (updateEvent_impl e cfg u eventData st)))
             \<noteq> filter is_write (trace st)"
  shows "\<exists>cal event rest jCal vevent.
           fst (getCalendar e cfg st) = Inr cal \<and> \<not> readOnly cal \<and>
           calendarQuery cal [uidQuery ''VEVENT'' u] = Resolved (event # rest) \<and>
           ICAL_parse e (vo_data event) = Resolved jCal \<and>
           getFirstSubcomponent jCal ''vevent'' = Some vevent \<and>
           snd (applyEventData eventData vevent) \<and> vo_update event \<noteq> None"
  using assms getCalendar_no_write [of e cfg st]
  by (auto simp: updateEvent_impl_def findEventByUid_def findByUid_eq rejectReadOnly_def
        writeBack_writes
      split: prod.splits sum.splits list.splits promise.splits option.splits if_splits)

lemma updateTodo_impl_write_path:
  assumes "filter is_write (trace (snd (updateTodo_impl e cfg u todoData st)))
             \<noteq> filter is_write (trace st)"
  shows "\<exists>cal todo rest jCal vtodo.
           fst (getCalendar e cfg st) = Inr cal \<and> \<not> readOnly cal \<and>
           calendarQuery cal [uidQuery ''VTODO'' u] = Resolved (todo # rest) \<and>
           ICAL_parse e (vo_data todo) = Resolved jCal \<and>
           getFirstSubcomponent jCal ''vtodo'' = Some vtodo \<and>
           snd (applyTodoData e todoData vtodo) \<and> vo_update todo \<noteq> None"
  using assms getCalendar_no_write [of e cfg st]
  by (auto simp: updateTodo_impl_def findTodoByUid_def findByUid_eq rejectReadOnly_def
        writeBack_writes
      split: prod.splits sum.splits list.splits promise.splits option.splits if_splits)



subsection \<open>The objects of the concrete server\<close>

lemma demo_work_facts:
  "\<not> readOnly demo_work"
  "calendarQuery demo_work [uidQuery ''VEVENT'' ''sp-task-42''] = Resolved [demo_event]"
  "calendarQuery demo_work [uidQuery ''VEVENT'' ''sp-task-9''] = Resolved [demo_bare_event]"
  "calendarQuery demo_work [uidQuery ''VTODO'' ''sp-task-7''] = Resolved [demo_todo]"
  "calendarQuery demo_work [uidQuery ''VTODO'' ''sp-task-9''] = Resolved [demo_bare_todo]"
  by (simp_all add: demo_work_def uidQuery_def)

lemma demo_event_facts:
  "ICAL_parse demo_env (vo_data demo_event) = Resolved demo_event_jCal"
  "ICAL_parse demo_env (vo_data demo_bare_event) = Resolved demo_event_jCal"
  "getFirstSubcomponent demo_event_jCal ''vevent'' = Some demo_vevent"
  "vo_update demo_event = Some (Resolved ())"
  "vo_update demo_bare_event = None"
  "vo_delete demo_bare_event = None"
  by (simp_all add: demo_env_def demo_event_def demo_bare_event_def demo_event_jCal_def
      getFirstSubcomponent_def demo_vevent_def)

lemma demo_todo_facts:
  "ICAL_parse demo_env (vo_data demo_todo) = Resolved demo_todo_jCal"
  "getFirstSubcomponent demo_todo_jCal ''vtodo'' = Some demo_vtodo"
  "vo_update demo_todo = Some (Resolved ())"
  "ICAL_parse demo_env (vo_data demo_bare_todo) = Resolved demo_todo_jCal"
  "vo_update demo_bare_todo = None"
  "vo_delete demo_bare_todo = None"
  by (simp_all add: demo_env_def demo_todo_def demo_bare_todo_def demo_todo_jCal_def
      getFirstSubcomponent_def demo_vtodo_def)

lemma demo_vevent_props:
  "getFirstPropertyValue demo_vevent ''summary'' = Some (Text ''Write report'')"
  "getFirstPropertyValue demo_vevent ''description'' = Some (Text ''notes'')"
  "getFirstPropertyValue demo_vevent ''sequence'' = Some (Number (Num 3))"
  by (simp_all add: getFirstPropertyValue_def demo_vevent_def)


subsection \<open>The revision stamp of a written update\<close>



subsection \<open>Updates that provide current values\<close>

lemma demo_getCalendar_work_trace:
  "trace (snd (getCalendar demo_env demo_cfg demo_state))
     = [NetConnect (Some ''https://dav.example/''), NetFindAllCalendars]"
  by (simp add: getCalendar_def getClient_def checkSettings_def isValidSettings_def
      demo_cfg_def demo_state_def demo_env_def calendarNameOf_def
      demo_home_def demo_work_def Let_def)

lemma updateEvent_unchanged_summary_only:
  assumes "fst (getCalendar e cfg st) = Inr cal"
    and "calendarQuery cal [uidQuery ''VEVENT'' u] = Resolved (event # rest)"
    and "ICAL_parse e (vo_data event) = Resolved jCal"
    and "getFirstSubcomponent jCal ''vevent'' = Some vevent"
    and "pe_start eventData = None" and "pe_end eventData = None"
    and "pe_description eventData = None"
    and "pe_summary eventData = None \<or>
         map_option Text (pe_summary eventData) = getFirstPropertyValue vevent ''summary''"
  shows "filter is_write (trace (snd (updateEvent e cfg u eventData st)))
           = filter is_write (trace st) \<and>
         (\<not> readOnly cal \<longrightarrow> fst (updateEvent e cfg u eventData st) = Inr ())"
proof -
  have nc: "\<not> snd (applyEventData eventData vevent)"
    using assms(5-8) by (auto simp: applyEventData_changed)
  have w: "filter is_write (trace (snd (updateEvent e cfg u eventData st)))
             = filter is_write (trace st)"
  proof (rule ccontr)
    assume "filter is_write (trace (snd (updateEvent e cfg u eventData st)))
              \<noteq> filter is_write (trace st)"
    then have "filter is_write (trace (snd (updateEvent_impl e cfg u eventData st)))
                 \<noteq> filter is_write (trace st)"
      by (simp add: updateEvent_def)
    from updateEvent_impl_write_path [OF this] assms(1-4) nc show False
      by auto
  qed
  have r: "\<not> readOnly cal \<Longrightarrow> fst (updateEvent e cfg u eventData st) = Inr ()"
    using nc by (simp add: updateEvent_def handled_Inr updateEvent_impl_located [OF assms(1) _ assms(2-4)])
  from w r show ?thesis by blast
qed

lemma updateTodo_unchanged_summary_only:
  assumes "fst (getCalendar e cfg st) = Inr cal"
    and "calendarQuery cal [uidQuery ''VTODO'' u] = Resolved (todo # rest)"
    and "ICAL_parse e (vo_data todo) = Resolved jCal"
    and "getFirstSubcomponent jCal ''vtodo'' = Some vtodo"
    and "pt_description todoData = None \<and> pt_status todoData = None \<and>
         pt_percentComplete todoData = None \<and> pt_priority todoData = None \<and>
         pt_dueDate todoData = None"
    and "pt_summary todoData = None \<or>
         map_option Text (pt_summary todoData) = getFirstPropertyValue vtodo ''summary''"
  shows "filter is_write (trace (snd (updateTodo e cfg u todoData st)))
           = filter is_write (trace st) \<and>
         (\<not> readOnly cal \<longrightarrow> fst (updateTodo e cfg u todoData st) = Inr ())"
proof -
  have nc: "\<not> snd (applyTodoData e todoData vtodo)"
    using assms(5,6) by (auto simp: applyTodoData_changed)
  have w: "filter is_write (trace (snd (updateTodo e cfg u todoData st)))
             = filter is_write (trace st)"
  proof (rule ccontr)
    assume "filter is_write (trace (snd (updateTodo e cfg u todoData st)))
              \<noteq> filter is_write (trace st)"
    then have "filter is_write (trace (snd (updateTodo_impl e cfg u todoData st)))
                 \<noteq> filter is_write (trace st)"
      by (simp add: updateTodo_def)
    from updateTodo_impl_write_path [OF this] assms(1-4) nc show False
      by auto
  qed
  have r: "\<not> readOnly cal \<Longrightarrow> fst (updateTodo e cfg u todoData st) = Inr ()"
    using nc by (simp add: updateTodo_def handled_Inr updateTodo_impl_located [OF assms(1) _ assms(2-4)])
  from w r show ?thesis by blast
qed

text \<open>
  C2, as stated, fails: a payload whose only field is a description equal to the current
  DESCRIPTION is written, with SEQUENCE raised from 3 to 4. Only the summary is compared
  with the current value; start, end and description are applied whenever they are
  provided.
\<close>

theorem unchanged_description_is_written_counterexample:
  "pe_summary demo_same_description = None \<and> pe_start demo_same_description = None \<and>
   pe_end demo_same_description = None \<and>
   map_option Text (pe_description demo_same_description)
     = getFirstPropertyValue demo_vevent ''description'' \<and>
   filter is_write (trace (snd (updateEvent demo_env demo_cfg ''sp-task-42''
       demo_same_description demo_state))) =
     [NetUpdate (demo_event\<lparr>vo_data := ICAL_stringify demo_env
        (putFirstSubcomponent demo_event_jCal ''vevent''
           (stampRevision demo_env (fst (applyEventData demo_same_description demo_vevent))))\<rparr>)] \<and>
   getFirstPropertyValue demo_vevent ''sequence'' = Some (Number (Num 3)) \<and>
   getFirstPropertyValue
     (stampRevision demo_env (fst (applyEventData demo_same_description demo_vevent))) ''sequence''
     = Some (Number (Num 4))"
proof -
  have p: "pe_summary demo_same_description = None \<and> pe_start demo_same_description = None \<and>
           pe_end demo_same_description = None \<and>
           pe_description demo_same_description = Some ''notes''"
    by (simp add: demo_same_description_def no_eventData_def)
  have ch: "snd (applyEventData demo_same_description demo_vevent)"
    using p by (simp add: applyEventData_changed)
  have w: "filter is_write (trace (snd (updateEvent demo_env demo_cfg ''sp-task-42''
             demo_same_description demo_state))) =
           [NetUpdate (demo_event\<lparr>vo_data := ICAL_stringify demo_env
              (putFirstSubcomponent demo_event_jCal ''vevent''
                 (stampRevision demo_env (fst (applyEventData demo_same_description demo_vevent))))\<rparr>)]"
    using ch
    by (simp add: updateEvent_def writeBack_writes demo_event_facts demo_getCalendar_work_trace
        updateEvent_impl_located [OF demo_getCalendar_work demo_work_facts(1,2)
          demo_event_facts(1,3)])
  have s: "getFirstPropertyValue
     (stampRevision demo_env (fst (applyEventData demo_same_description demo_vevent))) ''sequence''
     = Some (Number (Num 4))"
    by (simp add: stampRevision_sequence applyEventData_sequence demo_vevent_props sequenceInt_def)
  from p w s show ?thesis
    by (simp add: demo_vevent_props)
qed

text \<open>
  C2, amended. For a located event or todo, a payload that provides no field but the
  summary (and the uid, which is not used), the summary being absent or equal to the
  current SUMMARY, causes no write; on a writable calendar the call returns.
\<close>

theorem update_with_unchanged_summary_only_writes_nothing:
  assumes "fst (getCalendar e cfg st) = Inr cal"
  shows "(calendarQuery cal [uidQuery ''VEVENT'' u] = Resolved (event # rest) \<and>
          ICAL_parse e (vo_data event) = Resolved jCal \<and>
          getFirstSubcomponent jCal ''vevent'' = Some vevent \<and>
          pe_start eventData = None \<and> pe_end eventData = None \<and>
          pe_description eventData = None \<and>
          (pe_summary eventData = None \<or>
           map_option Text (pe_summary eventData) = getFirstPropertyValue vevent ''summary'') \<longrightarrow>
            filter is_write (trace (snd (updateEvent e cfg u eventData st)))
              = filter is_write (trace st) \<and>
            (\<not> readOnly cal \<longrightarrow> fst (updateEvent e cfg u eventData st) = Inr ())) \<and>
         (calendarQuery cal [uidQuery ''VTODO'' u] = Resolved (todo # rest') \<and>
          ICAL_parse e (vo_data todo) = Resolved jCal' \<and>
          getFirstSubcomponent jCal' ''vtodo'' = Some vtodo \<and>
          pt_description todoData = None \<and> pt_status todoData = None \<and>
          pt_percentComplete todoData = None \<and> pt_priority todoData = None \<and>
          pt_dueDate todoData = None \<and>
          (pt_summary todoData = None \<or>
           map_option Text (pt_summary todoData) = getFirstPropertyValue vtodo ''summary'') \<longrightarrow>
            filter is_write (trace (snd (updateTodo e cfg u todoData st)))
              = filter is_write (trace st) \<and>
            (\<not> readOnly cal \<longrightarrow> fst (updateTodo e cfg u todoData st) = Inr ()))"
  using updateEvent_unchanged_summary_only [OF assms, of u event rest jCal vevent eventData]
    updateTodo_unchanged_summary_only [OF assms, of u todo rest' jCal' vtodo todoData]
  by blast

theorem update_with_unchanged_summary_only_writes_nothing_witness:
  "fst (getCalendar demo_env demo_cfg demo_state) = Inr demo_work \<and>
   calendarQuery demo_work [uidQuery ''VEVENT'' ''sp-task-42''] = Resolved [demo_event] \<and>
   map_option Text (pe_summary demo_same_summary) = getFirstPropertyValue demo_vevent ''summary'' \<and>
   filter is_write (trace (snd (updateEvent demo_env demo_cfg ''sp-task-42''
       demo_same_summary demo_state))) = [] \<and>
   fst (updateEvent demo_env demo_cfg ''sp-task-42'' demo_same_summary demo_state) = Inr () \<and>
   calendarQuery demo_work [uidQuery ''VTODO'' ''sp-task-7''] = Resolved [demo_todo] \<and>
   pt_summary no_todoData = None \<and>
   filter is_write (trace (snd (updateTodo demo_env demo_cfg ''sp-task-7''
       no_todoData demo_state))) = [] \<and>
   fst (updateTodo demo_env demo_cfg ''sp-task-7'' no_todoData demo_state) = Inr ()"
proof -
  have p: "pe_summary demo_same_summary = Some ''Write report'' \<and>
           pe_start demo_same_summary = None \<and> pe_end demo_same_summary = None \<and>
           pe_description demo_same_summary = None"
    by (simp add: demo_same_summary_def no_eventData_def)
  have t: "pt_summary no_todoData = None \<and> pt_description no_todoData = None \<and>
           pt_status no_todoData = None \<and> pt_percentComplete no_todoData = None \<and>
           pt_priority no_todoData = None \<and> pt_dueDate no_todoData = None"
    by (simp add: no_todoData_def)
  have tr: "filter is_write (trace demo_state) = []"
    by (simp add: demo_state_def)
  show ?thesis
    using update_with_unchanged_summary_only_writes_nothing
            [OF demo_getCalendar_work, of "''sp-task-42''" demo_event "[]" demo_event_jCal
               demo_vevent demo_same_summary demo_todo "[]" demo_todo_jCal demo_vtodo no_todoData]
          update_with_unchanged_summary_only_writes_nothing
            [OF demo_getCalendar_work, of "''sp-task-7''" demo_event "[]" demo_event_jCal
               demo_vevent demo_same_summary demo_todo "[]" demo_todo_jCal demo_vtodo no_todoData]
          demo_getCalendar_work demo_work_facts demo_event_facts(1,3) demo_todo_facts(1,2) p t
    by (simp add: demo_vevent_props tr)
qed

subsection \<open>Objects without a capability handle\<close>

lemma updateEvent_no_capability:
  assumes "fst (getCalendar e cfg st) = Inr cal" and "\<not> readOnly cal"
    and "calendarQuery cal [uidQuery ''VEVENT'' u] = Resolved (event # rest)"
    and "ICAL_parse e (vo_data event) = Resolved jCal"
    and "getFirstSubcomponent jCal ''vevent'' = Some vevent"
    and "snd (applyEventData eventData vevent)" and "vo_update event = None"
  shows "logged_without_request ''CalDAV Calendar: Updated event'' u st
           (updateEvent e cfg u eventData st)"
  using assms(6) getCalendar_no_write [of e cfg st]
  by (simp add: logged_without_request_def updateEvent_def handled_def
      updateEvent_impl_located [OF assms(1-5)] writeBack_no_capability [OF assms(7)])

lemma updateTodo_no_capability:
  assumes "fst (getCalendar e cfg st) = Inr cal" and "\<not> readOnly cal"
    and "calendarQuery cal [uidQuery ''VTODO'' u] = Resolved (todo # rest)"
    and "ICAL_parse e (vo_data todo) = Resolved jCal"
    and "getFirstSubcomponent jCal ''vtodo'' = Some vtodo"
    and "snd (applyTodoData e todoData vtodo)" and "vo_update todo = None"
  shows "logged_without_request ''CalDAV Calendar: Updated VTODO'' u st
           (updateTodo e cfg u todoData st)"
  using assms(6) getCalendar_no_write [of e cfg st]
  by (simp add: logged_without_request_def updateTodo_def handled_def
      updateTodo_impl_located [OF assms(1-5)] writeBack_no_capability [OF assms(7)])

lemma deleteEvent_no_capability:
  assumes "fst (getCalendar e cfg st) = Inr cal"
    and "calendarQuery cal [uidQuery ''VEVENT'' u] = Resolved (event # rest)"
    and "vo_delete event = None"
  shows "logged_without_request ''CalDAV Calendar: Deleted event'' u st (deleteEvent e cfg u st)"
proof -
  obtain st1 where g: "getCalendar e cfg st = (Inr cal, st1)"
    and w: "filter is_write (trace st1) = filter is_write (trace st)"
    using assms(1) by (rule getCalendar_run)
  show ?thesis
    using w
    by (simp add: logged_without_request_def deleteEvent_def deleteEvent_impl_def handled_def g
        findEventByUid_def findByUid_eq assms(2) deleteObject_no_capability [OF assms(3)])
qed

lemma deleteTodo_no_capability:
  assumes "fst (getCalendar e cfg st) = Inr cal"
    and "calendarQuery cal [uidQuery ''VTODO'' u] = Resolved (todo # rest)"
    and "vo_delete todo = None"
  shows "logged_without_request ''CalDAV Calendar: Deleted VTODO'' u st (deleteTodo e cfg u st)"
proof -
  obtain st1 where g: "getCalendar e cfg st = (Inr cal, st1)"
    and w: "filter is_write (trace st1) = filter is_write (trace st)"
    using assms(1) by (rule getCalendar_run)
  show ?thesis
    using w
    by (simp add: logged_without_request_def deleteTodo_def deleteTodo_impl_def handled_def g
        findTodoByUid_def findByUid_eq assms(2) deleteObject_no_capability [OF assms(3)])
qed

text \<open>
  C9, as stated, fails for an update that observes no change: on an object without an
  update capability, a payload whose summary equals the current SUMMARY returns after
  the query, and no 'Updated' line is logged.
\<close>

theorem unchanged_update_without_capability_counterexample:
  "calendarQuery demo_work [uidQuery ''VEVENT'' ''sp-task-9''] = Resolved [demo_bare_event] \<and>
   vo_update demo_bare_event = None \<and>
   fst (updateEvent demo_env demo_cfg ''sp-task-9'' demo_same_summary demo_state) = Inr () \<and>
   trace (snd (updateEvent demo_env demo_cfg ''sp-task-9'' demo_same_summary demo_state)) =
     [NetConnect (Some ''https://dav.example/''), NetFindAllCalendars,
      NetCalendarQuery ''/cal/work/'' [uidQuery ''VEVENT'' ''sp-task-9'']] \<and>
   LogLog ''CalDAV Calendar: Updated event'' ''sp-task-9''
     \<notin> set (trace (snd (updateEvent demo_env demo_cfg ''sp-task-9'' demo_same_summary demo_state)))"
proof -
  have p: "pe_summary demo_same_summary = Some ''Write report'' \<and>
           pe_start demo_same_summary = None \<and> pe_end demo_same_summary = None \<and>
           pe_description demo_same_summary = None"
    by (simp add: demo_same_summary_def no_eventData_def)
  have nc: "\<not> snd (applyEventData demo_same_summary demo_vevent)"
    using p by (simp add: applyEventData_changed demo_vevent_props)
  have u: "cal_url demo_work = ''/cal/work/''"
    by (simp add: demo_work_def)
  have r: "updateEvent demo_env demo_cfg ''sp-task-9'' demo_same_summary demo_state =
             (Inr (), emit (NetCalendarQuery ''/cal/work/'' [uidQuery ''VEVENT'' ''sp-task-9''])
                        (snd (getCalendar demo_env demo_cfg demo_state)))"
    using nc
    by (simp add: updateEvent_def handled_def u
        updateEvent_impl_located [OF demo_getCalendar_work demo_work_facts(1,3)
          demo_event_facts(2,3)])
  show ?thesis
    by (simp add: r demo_work_facts demo_event_facts demo_getCalendar_work_trace)
qed

text \<open>
  C9, amended. An update that has observed a change on the located object, and a delete
  of a located object, return without an error and end by logging 'Updated' or 'Deleted'
  when the object carries no update (delete) capability, although no request is issued.
\<close>

theorem missing_capability_reports_done:
  assumes "fst (getCalendar e cfg st) = Inr cal"
  shows "(\<not> readOnly cal \<and>
          calendarQuery cal [uidQuery ''VEVENT'' u] = Resolved (event # rest) \<and>
          ICAL_parse e (vo_data event) = Resolved jCal \<and>
          getFirstSubcomponent jCal ''vevent'' = Some vevent \<and>
          snd (applyEventData eventData vevent) \<and> vo_update event = None \<longrightarrow>
            logged_without_request ''CalDAV Calendar: Updated event'' u st
              (updateEvent e cfg u eventData st)) \<and>
         (calendarQuery cal [uidQuery ''VEVENT'' u] = Resolved (event # rest) \<and>
          vo_delete event = None \<longrightarrow>
            logged_without_request ''CalDAV Calendar: Deleted event'' u st
              (deleteEvent e cfg u st)) \<and>
         (\<not> readOnly cal \<and>
          calendarQuery cal [uidQuery ''VTODO'' u] = Resolved (todo # rest') \<and>
          ICAL_parse e (vo_data todo) = Resolved jCal' \<and>
          getFirstSubcomponent jCal' ''vtodo'' = Some vtodo \<and>
          snd (applyTodoData e todoData vtodo) \<and> vo_update todo = None \<longrightarrow>
            logged_without_request ''CalDAV Calendar: Updated VTODO'' u st
              (updateTodo e cfg u todoData st)) \<and>
         (calendarQuery cal [uidQuery ''VTODO'' u] = Resolved (todo # rest') \<and>
          vo_delete todo = None \<longrightarrow>
            logged_without_request ''CalDAV Calendar: Deleted VTODO'' u st
              (deleteTodo e cfg u st))"
  using updateEvent_no_capability [OF assms, of u event rest jCal vevent eventData]
    deleteEvent_no_capability [OF assms, of u event rest]
    updateTodo_no_capability [OF assms, of u todo rest' jCal' vtodo todoData]
    deleteTodo_no_capability [OF assms, of u todo rest']
  by blast

theorem missing_capability_reports_done_witness:
  "fst (getCalendar demo_env demo_cfg demo_state) = Inr demo_work \<and> \<not> readOnly demo_work \<and>
   calendarQuery demo_work [uidQuery ''VEVENT'' ''sp-task-9''] = Resolved [demo_bare_event] \<and>
   calendarQuery demo_work [uidQuery ''VTODO'' ''sp-task-9''] = Resolved [demo_bare_todo] \<and>
   vo_update demo_bare_event = None \<and> vo_delete demo_bare_event = None \<and>
   vo_update demo_bare_todo = None \<and> vo_delete demo_bare_todo = None \<and>
   snd (applyEventData demo_new_summary demo_vevent) \<and>
   snd (applyTodoData demo_env demo_new_priority demo_vtodo) \<and>
   logged_without_request ''CalDAV Calendar: Updated event'' ''sp-task-9'' demo_state
     (updateEvent demo_env demo_cfg ''sp-task-9'' demo_new_summary demo_state) \<and>
   logged_without_request ''CalDAV Calendar: Deleted event'' ''sp-task-9'' demo_state
     (deleteEvent demo_env demo_cfg ''sp-task-9'' demo_state) \<and>
   logged_without_request ''CalDAV Calendar: Updated VTODO'' ''sp-task-9'' demo_state
     (updateTodo demo_env demo_cfg ''sp-task-9'' demo_new_priority demo_state) \<and>
   logged_without_request ''CalDAV Calendar: Deleted VTODO'' ''sp-task-9'' demo_state
     (deleteTodo demo_env demo_cfg ''sp-task-9'' demo_state)"
proof -
  have che: "snd (applyEventData demo_new_summary demo_vevent)"
    by (simp add: applyEventData_changed demo_new_summary_def no_eventData_def demo_vevent_props)
  have cht: "snd (applyTodoData demo_env demo_new_priority demo_vtodo)"
    by (simp add: applyTodoData_changed demo_new_priority_def no_todoData_def)
  show ?thesis
    using missing_capability_reports_done
            [OF demo_getCalendar_work, of "''sp-task-9''" demo_bare_event "[]" demo_event_jCal
               demo_vevent demo_new_summary demo_bare_todo "[]" demo_todo_jCal demo_vtodo
               demo_new_priority]
          demo_getCalendar_work demo_work_facts demo_event_facts demo_todo_facts che cht
    by simp
qed

end
